theory Spec2Isabelle
  imports Main "HOL-Library.Sublist"
begin

section \<open>Go standard library: package strings\<close>

text \<open>
  Go strings are byte sequences; \<^typ>\<open>string\<close> is a list of 8-bit characters.
  \<^verbatim>\<open>strings.HasSuffix(s, suffix)\<close> is
  \<^verbatim>\<open>len(s) >= len(suffix) && s[len(s)-len(suffix):] == suffix\<close>, and
  \<^verbatim>\<open>strings.TrimSuffix\<close> cuts the suffix off when it is one and returns \<open>s\<close> otherwise.
\<close>

definition HasSuffix :: "string \<Rightarrow> string \<Rightarrow> bool" where
  "HasSuffix s sfx = (length sfx \<le> length s \<and> drop (length s - length sfx) s = sfx)"

definition TrimSuffix :: "string \<Rightarrow> string \<Rightarrow> string" where
  "TrimSuffix s sfx = (if HasSuffix s sfx then take (length s - length sfx) s else s)"

section \<open>Go standard library: package path\<close>

text \<open>
  \<^verbatim>\<open>path.Clean\<close> reads the path from left to right and writes the cleaned path into a
  buffer \<open>out\<close>; \<open>dotdot\<close> is the index in the buffer that a \<^verbatim>\<open>..\<close> element must not cross.
  \<open>backtrack\<close> is the inner loop of the \<^verbatim>\<open>..\<close> case, run after \<^verbatim>\<open>out.w--\<close>: it moves the
  write index back to the last slash.
\<close>

fun backtrack :: "string \<Rightarrow> nat \<Rightarrow> nat \<Rightarrow> nat" where
  "backtrack buf dotdot w =
     (if dotdot < w \<and> buf ! w \<noteq> CHR ''/'' then backtrack buf dotdot (w - 1) else w)"

definition clean_step :: "bool \<Rightarrow> string \<Rightarrow> nat \<Rightarrow> char \<Rightarrow> string \<Rightarrow> string \<times> nat \<times> string" where
  "clean_step rooted out dotdot c rest =
     (if c = CHR ''/'' then
        \<comment> \<open>empty path element\<close>
        (out, dotdot, rest)
      else if c = CHR ''.'' \<and> (rest = [] \<or> hd rest = CHR ''/'') then
        \<comment> \<open>. element\<close>
        (out, dotdot, rest)
      else if c = CHR ''.'' \<and> rest \<noteq> [] \<and> hd rest = CHR ''.''
                \<and> (tl rest = [] \<or> hd (tl rest) = CHR ''/'') then
        \<comment> \<open>.. element: remove to last /\<close>
        (if dotdot < length out then
           (take (backtrack out dotdot (length out - 1)) out, dotdot, tl rest)
         else if \<not> rooted then
           (let out' = (if 0 < length out then out @ ''/'' else out) @ ''..''
            in (out', length out', tl rest))
         else (out, dotdot, tl rest))
      else
        \<comment> \<open>real path element: add slash if needed, copy element\<close>
        (let out' = (if rooted \<and> length out \<noteq> 1 \<or> \<not> rooted \<and> length out \<noteq> 0
                     then out @ ''/'' else out)
         in (out' @ takeWhile (\<lambda>x. x \<noteq> CHR ''/'') (c # rest), dotdot,
             dropWhile (\<lambda>x. x \<noteq> CHR ''/'') (c # rest))))"

text \<open>
  The loop of \<^verbatim>\<open>path.Clean\<close>: every step consumes at least the character it looks at, so
  the loop ends when the path is read.
\<close>

function clean_loop :: "bool \<Rightarrow> string \<Rightarrow> nat \<Rightarrow> string \<Rightarrow> string" where
  "clean_loop rooted out dotdot [] = out"
| "clean_loop rooted out dotdot (c # rest) =
     (case clean_step rooted out dotdot c rest of
        (out', dotdot', path') \<Rightarrow> clean_loop rooted out' dotdot' path')"
  by pat_completeness auto
termination
proof (relation "measure (\<lambda>(rooted, out, dotdot, path). length path)")
  fix rooted out dotdot c rest x out' y dotdot' path'
  assume s: "(out', y) = clean_step rooted out dotdot c rest" "(dotdot', path') = y"
  have d: "c \<noteq> CHR ''/'' \<Longrightarrow> length (dropWhile (\<lambda>x. x \<noteq> CHR ''/'') (c # rest)) \<le> length rest"
    by (simp add: length_dropWhile_le)
  have t: "length (tl rest) \<le> length rest"
    by simp
  have shorter: "length (snd (snd (clean_step rooted out dotdot c rest))) \<le> length rest"
    unfolding clean_step_def Let_def
    apply (simp only: if_distrib [where f = "\<lambda>x. length (snd (snd x)) \<le> length rest"] snd_conv)
    apply (simp only: split: if_split)
    apply (intro conjI impI)
    apply (simp_all (no_asm_simp) only: t order_refl)
    apply (erule d)+
    done
  from s have "path' = snd (snd (clean_step rooted out dotdot c rest))"
    by (metis snd_conv)
  with shorter show "((rooted, out', dotdot', path'), rooted, out, dotdot, c # rest)
      \<in> measure (\<lambda>(rooted, out, dotdot, path). length path)"
    by simp
qed simp

definition Clean :: "string \<Rightarrow> string" where
  "Clean path =
     (if path = [] then ''.''
      else
        (let rooted = (hd path = CHR ''/'');
             out = (if rooted then clean_loop True ''/'' 1 (tl path)
                    else clean_loop False [] 0 path)
         in if out = [] then ''.'' else out))"

text \<open>
  \<^verbatim>\<open>path.Join\<close>: the empty string when every element is empty; otherwise the non-empty elements
  joined by slashes (empty leading elements are skipped), cleaned.
\<close>

definition Join :: "string list \<Rightarrow> string" where
  "Join elem =
     (if sum_list (map length elem) = 0 then []
      else Clean (foldl (\<lambda>buf e. if buf \<noteq> [] \<or> e \<noteq> []
                                   then (if buf \<noteq> [] then buf @ ''/'' else buf) @ e
                                   else buf) [] elem))"

section \<open>The host framework: echo responses and routes\<close>

text \<open>
  A handler either fails (a Go panic, or an error value that it returns) or writes one
  response. \<open>Blob\<close>, \<open>HTML\<close> and \<open>Redirect\<close> are the three methods of \<^verbatim>\<open>echo.Context\<close>
  that the handlers call: \<^verbatim>\<open>c.Blob\<close> sets the content type and writes the bytes,
  \<^verbatim>\<open>c.HTML\<close> is \<^verbatim>\<open>c.Blob\<close> with the HTML content type, \<^verbatim>\<open>c.Redirect\<close> refuses a status
  outside 300..308 and otherwise sets the Location header.
\<close>

datatype error = Panic string | ErrInvalidRedirectCode

record response =
  status :: nat
  header :: "(string \<times> string) list"
  body :: string

definition StatusOK :: nat where
  "StatusOK = 200"

definition StatusFound :: nat where
  "StatusFound = 302"

definition Blob :: "nat \<Rightarrow> string \<Rightarrow> string \<Rightarrow> error + response" where
  "Blob code contentType b =
     Inr \<lparr>status = code, header = [(''Content-Type'', contentType)], body = b\<rparr>"

definition HTML :: "nat \<Rightarrow> string \<Rightarrow> error + response" where
  "HTML code html = Blob code ''text/html; charset=UTF-8'' html"

definition Redirect :: "nat \<Rightarrow> string \<Rightarrow> error + response" where
  "Redirect code url =
     (if code < 300 \<or> 308 < code then Inl ErrInvalidRedirectCode
      else Inr \<lparr>status = code, header = [(''Location'', url)], body = []\<rparr>)"

text \<open>
  A handler function reads two things of the request: the URL path \<open>p\<close> and the part of it
  that the route's wildcard matched, \<open>relPath\<close>. A route is a method, a pattern and a
  handler; \<^verbatim>\<open>e.GET\<close> adds one.
\<close>

type_synonym HandlerFunc = "string \<Rightarrow> string \<Rightarrow> error + response"

record Route =
  Method :: string
  Path :: string
  Handler :: HandlerFunc

type_synonym Echo = "Route list"

definition GET :: "Echo \<Rightarrow> string \<Rightarrow> HandlerFunc \<Rightarrow> Echo" where
  "GET e path h = e @ [\<lparr>Method = ''GET'', Path = path, Handler = h\<rparr>]"

section \<open>Go standard library: html/template and encoding/json\<close>

text \<open>
  The escapers of html/template and the string encoder of encoding/json are parameters of
  the model: \<open>rcdataEscaper\<close> escapes an action inside the title element, \<open>attrEscaper\<close> one
  inside a quoted attribute value, \<open>urlAttrEscaper\<close> one inside a quoted attribute that
  html/template takes for a URL (its name contains \<^verbatim>\<open>url\<close>), and \<open>jsonString\<close> encodes a Go
  string as a JSON string, quotes included. A value of type \<^verbatim>\<open>template.JS\<close> is written into a
  script as it is.
\<close>

record stdlib =
  rcdataEscaper :: "string \<Rightarrow> string"
  attrEscaper :: "string \<Rightarrow> string"
  urlAttrEscaper :: "string \<Rightarrow> string"
  jsonString :: "string \<Rightarrow> string"

text \<open>
  A parsed template maps its parameters to the text it produces or to an execution error.
  Parsing a template source gives a parsed template or a parse error.
\<close>

type_synonym 'p template = "'p \<Rightarrow> string + string"

type_synonym 'p parser = "string \<Rightarrow> string + 'p template"

text \<open>Decimal digits of an integer, as \<^verbatim>\<open>fmt.Sprint\<close> prints it.\<close>

fun digits :: "nat \<Rightarrow> string" where
  "digits n =
     (if n < 10 then [char_of (48 + n)] else digits (n div 10) @ [char_of (48 + n mod 10)])"

definition Itoa :: "int \<Rightarrow> string" where
  "Itoa i = (if i < 0 then ''-'' @ digits (nat (- i)) else digits (nat i))"

text \<open>
  The tag of a built-in template is a list of attributes. The value of an attribute is
  literal template text, an escaped action, or an escaped action in a URL attribute.
  \<open>render_attr\<close> writes one attribute after the white space \<open>sep\<close> that the template has
  in front of it.
\<close>

datatype attr_value = Literal string | Action string | UrlAction string

definition attr_text :: "stdlib \<Rightarrow> attr_value \<Rightarrow> string" where
  "attr_text env v =
     (case v of Literal s \<Rightarrow> s | Action s \<Rightarrow> attrEscaper env s | UrlAction s \<Rightarrow> urlAttrEscaper env s)"

definition render_attr :: "stdlib \<Rightarrow> string \<Rightarrow> string \<times> attr_value \<Rightarrow> string" where
  "render_attr env sep a = sep @ fst a @ [CHR ''='', CHR 0x22] @ attr_text env (snd a) @ [CHR 0x22]"

text \<open>A JSON object of already encoded values, as encoding/json writes a struct.\<close>

fun commas :: "string list \<Rightarrow> string" where
  "commas [] = []"
| "commas [x] = x"
| "commas (x # y # xs) = x @ '','' @ commas (y # xs)"

definition json_member :: "string \<times> string \<Rightarrow> string" where
  "json_member kv = [CHR 0x22] @ fst kv @ [CHR 0x22] @ '':'' @ snd kv"

definition json_object :: "(string \<times> string) list \<Rightarrow> string" where
  "json_object members = ''{'' @ commas (map json_member members) @ ''}''"

definition json_bool :: "bool \<Rightarrow> string" where
  "json_bool b = (if b then ''true'' else ''false'')"

section \<open>Stoplight Elements (elements.go)\<close>

type_synonym ElementsRouter = string

definition ElementsRouterHash :: ElementsRouter where
  "ElementsRouterHash = ''hash''"

definition ElementsRouterHistory :: ElementsRouter where
  "ElementsRouterHistory = ''history''"

definition ElementsRouterMemory :: ElementsRouter where
  "ElementsRouterMemory = ''memory''"

type_synonym ElementsLayout = string

definition ElementsLayoutSidebar :: ElementsLayout where
  "ElementsLayoutSidebar = ''sidebar''"

definition ElementsLayoutResponsive :: ElementsLayout where
  "ElementsLayoutResponsive = ''responsive''"

definition ElementsLayoutStacked :: ElementsLayout where
  "ElementsLayoutStacked = ''stacked''"

type_synonym ElementsTryItCredentialsPolicy = string

definition ElementsTryItCredentialsPolicyOmit :: ElementsTryItCredentialsPolicy where
  "ElementsTryItCredentialsPolicyOmit = ''omit''"

definition ElementsTryItCredentialsInclude :: ElementsTryItCredentialsPolicy where
  "ElementsTryItCredentialsInclude = ''include''"

definition ElementsTryItCredentialsSameOrigin :: ElementsTryItCredentialsPolicy where
  "ElementsTryItCredentialsSameOrigin = ''same-origin''"

record ElementsConfig =
  Spec :: string
  SpecUrl :: string
  Title :: string
  Template :: string
  Router :: ElementsRouter
  Layout :: ElementsLayout
  HideInternal :: bool
  HideTryIt :: bool
  HideSchemas :: bool
  HideExport :: bool
  TryItCorsProxy :: string
  TryItCredentialsPolicy :: ElementsTryItCredentialsPolicy
  Logo :: string

text \<open>The Go struct embeds \<^verbatim>\<open>ElementsConfig\<close>; the embedded struct is the first field here.\<close>

record elementsTemplateParams =
  ElementsConfig :: ElementsConfig
  BasePath :: string
  ApiDescriptionUrl :: string

definition defaultElementsTemplate :: string where
  \<open>defaultElementsTemplate =
     ''<html lang="en">\<newline>'' @
     ''<head>\<newline>'' @
     ''  <meta charset="utf-8">\<newline>'' @
     ''  <meta name="viewport" content="width=device-width, initial-scale=1">\<newline>'' @
     ''  <title>{{ .Title }}</title>\<newline>'' @
     ''  <script src="https://unpkg.com/@stoplight/elements/web-components.min.js"></script>\<newline>'' @
     ''  <link rel="stylesheet" href="https://unpkg.com/@stoplight/elements/styles.min.css">\<newline>'' @
     ''</head>\<newline>'' @
     ''<body>\<newline>'' @
     ''  <elements-api\<newline>'' @
     ''    apiDescriptionUrl="{{ .ApiDescriptionUrl }}"\<newline>'' @
     ''    {{- if ne .BasePath "" }}\<newline>'' @
     ''    basePath="{{ .BasePath }}"\<newline>'' @
     ''    {{- end }}\<newline>'' @
     ''    {{- if .HideInternal }}\<newline>'' @
     ''    hideInternal="true"\<newline>'' @
     ''    {{- end }}\<newline>'' @
     ''    {{- if .HideTryIt }}\<newline>'' @
     ''    hideTryIt="true"\<newline>'' @
     ''    {{- end }}\<newline>'' @
     ''    {{- if .HideSchemas }}\<newline>'' @
     ''    hideSchemas="true"\<newline>'' @
     ''    {{- end }}\<newline>'' @
     ''    {{- if .HideExport }}\<newline>'' @
     ''    hideExport="true"\<newline>'' @
     ''    {{- end }}\<newline>'' @
     ''    {{- if ne .TryItCorsProxy "" }}\<newline>'' @
     ''    tryItCorsProxy="{{ .TryItCorsProxy }}"\<newline>'' @
     ''    {{- end }}\<newline>'' @
     ''    {{- if and (ne .TryItCredentialsPolicy "") (ne .TryItCredentialsPolicy "omit") }}\<newline>'' @
     ''    tryItCredentialsPolicy="{{ .TryItCredentialsPolicy }}"\<newline>'' @
     ''    {{- end }}\<newline>'' @
     ''    layout="{{ .Layout }}"\<newline>'' @
     ''    {{- if ne .Logo "" }}\<newline>'' @
     ''    logo="{{ .Logo }}"\<newline>'' @
     ''    {{- end }}\<newline>'' @
     ''    router="{{ .Router }}"\<newline>'' @
     ''  />\<newline>'' @
     ''</body>\<newline>'' @
     ''</html>\<newline>''\<close>

definition DefaultElementsConfig :: ElementsConfig where
  "DefaultElementsConfig =
     \<lparr>ElementsConfig.Spec = [],
      ElementsConfig.SpecUrl = [],
      ElementsConfig.Title = ''API documentation with Stoplight Elements'',
      ElementsConfig.Template = defaultElementsTemplate,
      ElementsConfig.Router = ElementsRouterHistory,
      ElementsConfig.Layout = ElementsLayoutSidebar,
      ElementsConfig.HideInternal = False,
      ElementsConfig.HideTryIt = False,
      ElementsConfig.HideSchemas = False,
      ElementsConfig.HideExport = False,
      ElementsConfig.TryItCorsProxy = [],
      ElementsConfig.TryItCredentialsPolicy = ElementsTryItCredentialsPolicyOmit,
      ElementsConfig.Logo = []\<rparr>"

text \<open>
  What html/template produces from \<open>defaultElementsTemplate\<close>: the attributes of the
  \<^verbatim>\<open>elements-api\<close> tag in the template's order, each \<^verbatim>\<open>if\<close> of the template a conditional
  here, and the page around them. Every \<^verbatim>\<open>{{-\<close> removes the white space in front of it, so
  each attribute that is written comes after a line break and four spaces.
\<close>

definition elements_api_attributes :: "elementsTemplateParams \<Rightarrow> (string \<times> attr_value) list" where
  "elements_api_attributes params =
     (let c = elementsTemplateParams.ElementsConfig params in
      [(''apiDescriptionUrl'', UrlAction (elementsTemplateParams.ApiDescriptionUrl params))] @
      (if elementsTemplateParams.BasePath params \<noteq> []
       then [(''basePath'', Action (elementsTemplateParams.BasePath params))] else []) @
      (if ElementsConfig.HideInternal c then [(''hideInternal'', Literal ''true'')] else []) @
      (if ElementsConfig.HideTryIt c then [(''hideTryIt'', Literal ''true'')] else []) @
      (if ElementsConfig.HideSchemas c then [(''hideSchemas'', Literal ''true'')] else []) @
      (if ElementsConfig.HideExport c then [(''hideExport'', Literal ''true'')] else []) @
      (if ElementsConfig.TryItCorsProxy c \<noteq> []
       then [(''tryItCorsProxy'', Action (ElementsConfig.TryItCorsProxy c))] else []) @
      (if ElementsConfig.TryItCredentialsPolicy c \<noteq> []
          \<and> ElementsConfig.TryItCredentialsPolicy c \<noteq> ''omit''
       then [(''tryItCredentialsPolicy'', Action (ElementsConfig.TryItCredentialsPolicy c))]
       else []) @
      [(''layout'', Action (ElementsConfig.Layout c))] @
      (if ElementsConfig.Logo c \<noteq> [] then [(''logo'', Action (ElementsConfig.Logo c))] else []) @
      [(''router'', Action (ElementsConfig.Router c))])"

definition execute_defaultElementsTemplate :: "stdlib \<Rightarrow> elementsTemplateParams \<Rightarrow> string" where
  \<open>execute_defaultElementsTemplate env params =
     ''<html lang="en">\<newline>'' @
     ''<head>\<newline>'' @
     ''  <meta charset="utf-8">\<newline>'' @
     ''  <meta name="viewport" content="width=device-width, initial-scale=1">\<newline>'' @
     ''  <title>'' @
     rcdataEscaper env (ElementsConfig.Title (elementsTemplateParams.ElementsConfig params)) @
     ''</title>\<newline>'' @
     ''  <script src="https://unpkg.com/@stoplight/elements/web-components.min.js"></script>\<newline>'' @
     ''  <link rel="stylesheet" href="https://unpkg.com/@stoplight/elements/styles.min.css">\<newline>'' @
     ''</head>\<newline>'' @
     ''<body>\<newline>'' @
     ''  <elements-api'' @
     concat (map (render_attr env ''\<newline>    '') (elements_api_attributes params)) @
     ''\<newline>  />\<newline>'' @
     ''</body>\<newline>'' @
     ''</html>\<newline>''\<close>

text \<open>
  \<^verbatim>\<open>htmltemplate.New("T").Parse\<close>: the built-in template parses, and executing it never
  fails; what html/template does with any other source is the parameter \<open>custom\<close>.
\<close>

definition elements_Parse :: "stdlib \<Rightarrow> elementsTemplateParams parser \<Rightarrow> elementsTemplateParams parser" where
  "elements_Parse env custom src =
     (if src = defaultElementsTemplate then Inr (\<lambda>params. Inr (execute_defaultElementsTemplate env params))
      else custom src)"

text \<open>The head of \<^verbatim>\<open>ElementsDocumentsHandler\<close>: empty options take the default values.\<close>

definition elements_defaults :: "ElementsConfig \<Rightarrow> ElementsConfig" where
  "elements_defaults config0 =
     (let config = (if ElementsConfig.Template config0 = []
                    then config0\<lparr>ElementsConfig.Template := ElementsConfig.Template DefaultElementsConfig\<rparr>
                    else config0);
          config = (if ElementsConfig.Router config = []
                    then config\<lparr>ElementsConfig.Router := ElementsConfig.Router DefaultElementsConfig\<rparr>
                    else config);
          config = (if ElementsConfig.Layout config = []
                    then config\<lparr>ElementsConfig.Layout := ElementsConfig.Layout DefaultElementsConfig\<rparr>
                    else config);
          config = (if ElementsConfig.Title config = []
                    then config\<lparr>ElementsConfig.Title := ElementsConfig.Title DefaultElementsConfig\<rparr>
                    else config);
          config = (if ElementsConfig.TryItCredentialsPolicy config = []
                    then config\<lparr>ElementsConfig.TryItCredentialsPolicy :=
                                  ElementsConfig.TryItCredentialsPolicy DefaultElementsConfig\<rparr>
                    else config)
      in config)"

text \<open>The function that \<^verbatim>\<open>ElementsDocumentsHandler\<close> returns, closed over the configuration.\<close>

definition elements_handler ::
  "ElementsConfig \<Rightarrow> bool \<Rightarrow> elementsTemplateParams template \<Rightarrow> HandlerFunc" where
  "elements_handler config useSpecUrl pageTmpl p relPath =
     (let basePath = TrimSuffix p relPath in
      if \<not> useSpecUrl \<and> HasSuffix p (Join [basePath, ''openapi-spec''])
      then Blob StatusOK ''text/plain; charset=utf-8'' (ElementsConfig.Spec config)
      else
        (let specUrl = (if \<not> useSpecUrl then Join [basePath, ''openapi-spec'']
                        else ElementsConfig.SpecUrl config)
         in if ElementsConfig.Router config \<noteq> ElementsRouterHistory \<and> relPath \<noteq> []
            then \<comment> \<open>not history mode: the document site only works with the base path\<close>
              Redirect StatusFound basePath
            else
              (case pageTmpl \<lparr>elementsTemplateParams.ElementsConfig = config,
                              elementsTemplateParams.BasePath = basePath,
                              elementsTemplateParams.ApiDescriptionUrl = specUrl\<rparr> of
                 Inl err \<Rightarrow> Inl (Panic err)
               | Inr html \<Rightarrow> HTML StatusOK html)))"

definition ElementsDocumentsHandler ::
  "stdlib \<Rightarrow> elementsTemplateParams parser \<Rightarrow> ElementsConfig \<Rightarrow> error + HandlerFunc" where
  "ElementsDocumentsHandler env custom config0 =
     (let config = elements_defaults config0 in
      if ElementsConfig.Spec config = [] \<and> ElementsConfig.SpecUrl config = []
      then Inl (Panic ''either Spec or SpecUrl must be set'')
      else
        (let useSpecUrl = (ElementsConfig.Spec config = []) in
         case elements_Parse env custom (ElementsConfig.Template config) of
           Inl err \<Rightarrow> Inl (Panic err)
         | Inr pageTmpl \<Rightarrow> Inr (elements_handler config useSpecUrl pageTmpl)))"

text \<open>
  \<^verbatim>\<open>ElementsDocuments\<close> builds the handler first and then registers it; a panic of the
  handler factory leaves no route behind.
\<close>

definition ElementsDocuments ::
  "stdlib \<Rightarrow> elementsTemplateParams parser \<Rightarrow> Echo \<Rightarrow> string \<Rightarrow> ElementsConfig \<Rightarrow> error + Echo" where
  "ElementsDocuments env custom e pathPrefix config =
     (case ElementsDocumentsHandler env custom config of
        Inl err \<Rightarrow> Inl err
      | Inr h \<Rightarrow> Inr (GET e (pathPrefix @ ''*'') h))"

section \<open>Scalar (scalar.go)\<close>

type_synonym ScalarLayout = string

definition ScalarLayoutModern :: ScalarLayout where
  "ScalarLayoutModern = ''modern''"

definition ScalarLayoutClassic :: ScalarLayout where
  "ScalarLayoutClassic = ''classic''"

type_synonym ScalarTheme = string

definition ScalarThemeAlternate :: ScalarTheme where
  "ScalarThemeAlternate = ''alternate''"

definition ScalarThemeDefault :: ScalarTheme where
  "ScalarThemeDefault = ''default''"

definition ScalarThemeMoon :: ScalarTheme where
  "ScalarThemeMoon = ''moon''"

definition ScalarThemePurple :: ScalarTheme where
  "ScalarThemePurple = ''purple''"

definition ScalarThemeSolarized :: ScalarTheme where
  "ScalarThemeSolarized = ''solarized''"

definition ScalarThemeBluePlanet :: ScalarTheme where
  "ScalarThemeBluePlanet = ''bluePlanet''"

definition ScalarThemeSaturn :: ScalarTheme where
  "ScalarThemeSaturn = ''saturn''"

definition ScalarThemeMars :: ScalarTheme where
  "ScalarThemeMars = ''mars''"

definition ScalarThemeDeepSpace :: ScalarTheme where
  "ScalarThemeDeepSpace = ''deepSpace''"

definition ScalarThemeNone :: ScalarTheme where
  "ScalarThemeNone = ''none''"

record ScalarConfig =
  Spec :: string
  SpecUrl :: string
  Title :: string
  Template :: string
  IsEditable :: bool
  ProxyUrl :: string
  DarkMode :: bool
  Layout :: ScalarLayout
  Theme :: ScalarTheme
  HideSidebar :: bool
  SearchHotKey :: string

text \<open>\<open>ApiReferenceConfiguration\<close> is a \<^verbatim>\<open>template.JS\<close>: JSON text, written as it is.\<close>

record scalarTemplateParams =
  ScalarConfig :: ScalarConfig
  BasePath :: string
  ApiReferenceConfiguration :: string

record apiReferenceConfigurationSpec =
  URL :: string

record apiReferenceConfiguration =
  IsEditable :: bool
  Spec :: apiReferenceConfigurationSpec
  ProxyUrl :: string
  DarkMode :: bool
  Layout :: ScalarLayout
  Theme :: ScalarTheme
  ShowSidebar :: bool
  SearchHotKey :: string

definition defaultScalarTemplate :: string where
  \<open>defaultScalarTemplate =
     ''<html lang="en">\<newline>'' @
     ''<head>\<newline>'' @
     ''  <meta charset="utf-8">\<newline>'' @
     ''  <meta name="viewport" content="width=device-width, initial-scale=1">\<newline>'' @
     ''  <title>{{ .Title }}</title>\<newline>'' @
     ''</head>\<newline>'' @
     ''<body>\<newline>'' @
     ''  <script id="api-reference" type="application/json"></script>\<newline>'' @
     ''  <script>\<newline>'' @
     ''    var configuration = {{ .ApiReferenceConfiguration }};\<newline>'' @
     ''    var apiReference = document.getElementById('api-reference');\<newline>'' @
     ''    apiReference.dataset.configuration = JSON.stringify(configuration);\<newline>'' @
     ''  </script>\<newline>'' @
     ''  <script src="https://cdn.jsdelivr.net/npm/@scalar/api-reference"></script>\<newline>'' @
     ''</body>\<newline>'' @
     ''</html>\<newline>''\<close>

definition DefaultScalarConfig :: ScalarConfig where
  "DefaultScalarConfig =
     \<lparr>ScalarConfig.Spec = [],
      ScalarConfig.SpecUrl = [],
      ScalarConfig.Title = ''API documentation with Scalar'',
      ScalarConfig.Template = defaultScalarTemplate,
      ScalarConfig.IsEditable = False,
      ScalarConfig.ProxyUrl = [],
      ScalarConfig.DarkMode = False,
      ScalarConfig.Layout = ScalarLayoutModern,
      ScalarConfig.Theme = ScalarThemeDefault,
      ScalarConfig.HideSidebar = False,
      ScalarConfig.SearchHotKey = []\<rparr>"

text \<open>
  \<^verbatim>\<open>json.Marshal\<close> of an \<^verbatim>\<open>apiReferenceConfiguration\<close>: the members in the order of the struct's
  fields; a field tagged \<^verbatim>\<open>omitempty\<close> is left out when it is false or the empty string.
  \<^verbatim>\<open>spec\<close> and \<^verbatim>\<open>showSidebar\<close> carry no such tag. Marshalling a struct of strings and
  booleans returns no error.
\<close>

definition apiReferenceConfiguration_members ::
  "stdlib \<Rightarrow> apiReferenceConfiguration \<Rightarrow> (string \<times> string) list" where
  "apiReferenceConfiguration_members env c =
     (if apiReferenceConfiguration.IsEditable c
      then [(''isEditable'', json_bool (apiReferenceConfiguration.IsEditable c))] else []) @
     [(''spec'', json_object [(''url'', jsonString env (URL (apiReferenceConfiguration.Spec c)))])] @
     (if apiReferenceConfiguration.ProxyUrl c \<noteq> []
      then [(''proxyUrl'', jsonString env (apiReferenceConfiguration.ProxyUrl c))] else []) @
     (if apiReferenceConfiguration.DarkMode c
      then [(''darkMode'', json_bool (apiReferenceConfiguration.DarkMode c))] else []) @
     (if apiReferenceConfiguration.Layout c \<noteq> []
      then [(''layout'', jsonString env (apiReferenceConfiguration.Layout c))] else []) @
     (if apiReferenceConfiguration.Theme c \<noteq> []
      then [(''theme'', jsonString env (apiReferenceConfiguration.Theme c))] else []) @
     [(''showSidebar'', json_bool (apiReferenceConfiguration.ShowSidebar c))] @
     (if apiReferenceConfiguration.SearchHotKey c \<noteq> []
      then [(''searchHotKey'', jsonString env (apiReferenceConfiguration.SearchHotKey c))] else [])"

definition Marshal_apiReferenceConfiguration :: "stdlib \<Rightarrow> apiReferenceConfiguration \<Rightarrow> string" where
  "Marshal_apiReferenceConfiguration env c = json_object (apiReferenceConfiguration_members env c)"

text \<open>What html/template produces from \<open>defaultScalarTemplate\<close>.\<close>

definition execute_defaultScalarTemplate :: "stdlib \<Rightarrow> scalarTemplateParams \<Rightarrow> string" where
  \<open>execute_defaultScalarTemplate env params =
     ''<html lang="en">\<newline>'' @
     ''<head>\<newline>'' @
     ''  <meta charset="utf-8">\<newline>'' @
     ''  <meta name="viewport" content="width=device-width, initial-scale=1">\<newline>'' @
     ''  <title>'' @
     rcdataEscaper env (ScalarConfig.Title (scalarTemplateParams.ScalarConfig params)) @
     ''</title>\<newline>'' @
     ''</head>\<newline>'' @
     ''<body>\<newline>'' @
     ''  <script id="api-reference" type="application/json"></script>\<newline>'' @
     ''  <script>\<newline>'' @
     ''    var configuration = '' @ scalarTemplateParams.ApiReferenceConfiguration params @ '';\<newline>'' @
     ''    var apiReference = document.getElementById('api-reference');\<newline>'' @
     ''    apiReference.dataset.configuration = JSON.stringify(configuration);\<newline>'' @
     ''  </script>\<newline>'' @
     ''  <script src="https://cdn.jsdelivr.net/npm/@scalar/api-reference"></script>\<newline>'' @
     ''</body>\<newline>'' @
     ''</html>\<newline>''\<close>

definition scalar_Parse :: "stdlib \<Rightarrow> scalarTemplateParams parser \<Rightarrow> scalarTemplateParams parser" where
  "scalar_Parse env custom src =
     (if src = defaultScalarTemplate then Inr (\<lambda>params. Inr (execute_defaultScalarTemplate env params))
      else custom src)"

text \<open>The head of \<^verbatim>\<open>ScalarDocumentsHandler\<close>: only the template and the title are filled.\<close>

definition scalar_defaults :: "ScalarConfig \<Rightarrow> ScalarConfig" where
  "scalar_defaults config0 =
     (let config = (if ScalarConfig.Template config0 = []
                    then config0\<lparr>ScalarConfig.Template := ScalarConfig.Template DefaultScalarConfig\<rparr>
                    else config0);
          config = (if ScalarConfig.Title config = []
                    then config\<lparr>ScalarConfig.Title := ScalarConfig.Title DefaultScalarConfig\<rparr>
                    else config)
      in config)"

definition scalar_handler ::
  "stdlib \<Rightarrow> ScalarConfig \<Rightarrow> bool \<Rightarrow> scalarTemplateParams template \<Rightarrow> HandlerFunc" where
  "scalar_handler env config useSpecUrl pageTmpl p relPath =
     (let basePath = TrimSuffix p relPath in
      if \<not> useSpecUrl \<and> HasSuffix p (Join [basePath, ''openapi-spec''])
      then Blob StatusOK ''text/plain; charset=utf-8'' (ScalarConfig.Spec config)
      else
        (let specUrl = (if \<not> useSpecUrl then Join [basePath, ''openapi-spec'']
                        else ScalarConfig.SpecUrl config)
         in if relPath \<noteq> []
            then \<comment> \<open>the document site only works with the base path\<close>
              Redirect StatusFound basePath
            else
              (let apiReferenceConfiguration =
                     \<lparr>apiReferenceConfiguration.IsEditable = ScalarConfig.IsEditable config,
                      apiReferenceConfiguration.Spec = \<lparr>URL = specUrl\<rparr>,
                      apiReferenceConfiguration.ProxyUrl = ScalarConfig.ProxyUrl config,
                      apiReferenceConfiguration.DarkMode = ScalarConfig.DarkMode config,
                      apiReferenceConfiguration.Layout = ScalarConfig.Layout config,
                      apiReferenceConfiguration.Theme = ScalarConfig.Theme config,
                      apiReferenceConfiguration.ShowSidebar = (\<not> ScalarConfig.HideSidebar config),
                      apiReferenceConfiguration.SearchHotKey = ScalarConfig.SearchHotKey config\<rparr>;
                   jsonDate = Marshal_apiReferenceConfiguration env apiReferenceConfiguration
               in case pageTmpl \<lparr>scalarTemplateParams.ScalarConfig = config,
                                  scalarTemplateParams.BasePath = basePath,
                                  scalarTemplateParams.ApiReferenceConfiguration = jsonDate\<rparr> of
                    Inl err \<Rightarrow> Inl (Panic err)
                  | Inr html \<Rightarrow> HTML StatusOK html)))"

definition ScalarDocumentsHandler ::
  "stdlib \<Rightarrow> scalarTemplateParams parser \<Rightarrow> ScalarConfig \<Rightarrow> error + HandlerFunc" where
  "ScalarDocumentsHandler env custom config0 =
     (let config = scalar_defaults config0 in
      if ScalarConfig.Spec config = [] \<and> ScalarConfig.SpecUrl config = []
      then Inl (Panic ''either Spec or SpecUrl must be set'')
      else
        (let useSpecUrl = (ScalarConfig.Spec config = []) in
         case scalar_Parse env custom (ScalarConfig.Template config) of
           Inl err \<Rightarrow> Inl (Panic err)
         | Inr pageTmpl \<Rightarrow> Inr (scalar_handler env config useSpecUrl pageTmpl)))"

definition ScalarDocuments ::
  "stdlib \<Rightarrow> scalarTemplateParams parser \<Rightarrow> Echo \<Rightarrow> string \<Rightarrow> ScalarConfig \<Rightarrow> error + Echo" where
  "ScalarDocuments env custom e pathPrefix config =
     (case ScalarDocumentsHandler env custom config of
        Inl err \<Rightarrow> Inl err
      | Inr h \<Rightarrow> Inr (GET e (pathPrefix @ ''*'') h))"

section \<open>Swagger UI\<close>

record SwaggerUIConfig =
  Spec :: string
  SpecUrl :: string
  Title :: string
  Template :: string
  DeepLinking :: bool
  DisplayOperationId :: bool

record swaggerUITemplateParams =
  SwaggerUIConfig :: SwaggerUIConfig
  BasePath :: string
  SwaggerUIConfiguration :: string

record swaggerUIConfiguration =
  Url :: string
  DomId :: string
  DeepLinking :: bool
  DisplayOperationId :: bool

definition defaultSwaggerUITemplate :: string where
  \<open>defaultSwaggerUITemplate =
     ''<html lang="en">\<newline>'' @
     ''<head>\<newline>'' @
     ''  <meta charset="utf-8">\<newline>'' @
     ''  <meta name="viewport" content="width=device-width, initial-scale=1">\<newline>'' @
     ''  <title>{{ .Title }}</title>\<newline>'' @
     ''  <link rel="stylesheet" href="https://unpkg.com/swagger-ui-dist/swagger-ui.css" />\<newline>'' @
     ''</head>\<newline>'' @
     ''<body>\<newline>'' @
     ''  <div id="swagger-ui"></div>\<newline>'' @
     ''  <script src="https://unpkg.com/swagger-ui-dist/swagger-ui-bundle.js" crossorigin></script>\<newline>'' @
     ''  <script>\<newline>'' @
     [CHR 0x09] @ ''var configuration = {{ .SwaggerUIConfiguration }};\<newline>'' @
     ''    window.onload = () => {\<newline>'' @
     [CHR 0x09] @ ''  window.ui = SwaggerUIBundle(configuration);\<newline>'' @
     ''    };\<newline>'' @
     ''  </script>\<newline>'' @
     ''</body>\<newline>'' @
     ''</html>\<newline>''\<close>

definition DefaultSwaggerUIConfig :: SwaggerUIConfig where
  "DefaultSwaggerUIConfig =
     \<lparr>SwaggerUIConfig.Spec = [],
      SwaggerUIConfig.SpecUrl = [],
      SwaggerUIConfig.Title = ''API documentation with Swagger UI'',
      SwaggerUIConfig.Template = defaultSwaggerUITemplate,
      SwaggerUIConfig.DeepLinking = False,
      SwaggerUIConfig.DisplayOperationId = False\<rparr>"

text \<open>\<^verbatim>\<open>json.Marshal\<close> of a \<^verbatim>\<open>swaggerUIConfiguration\<close>; the two booleans are tagged \<^verbatim>\<open>omitempty\<close>.\<close>

definition swaggerUIConfiguration_members ::
  "stdlib \<Rightarrow> swaggerUIConfiguration \<Rightarrow> (string \<times> string) list" where
  "swaggerUIConfiguration_members env c =
     [(''url'', jsonString env (Url c))] @
     [(''dom_id'', jsonString env (DomId c))] @
     (if swaggerUIConfiguration.DeepLinking c
      then [(''deepLinking'', json_bool (swaggerUIConfiguration.DeepLinking c))] else []) @
     (if swaggerUIConfiguration.DisplayOperationId c
      then [(''displayOperationId'', json_bool (swaggerUIConfiguration.DisplayOperationId c))]
      else [])"

definition Marshal_swaggerUIConfiguration :: "stdlib \<Rightarrow> swaggerUIConfiguration \<Rightarrow> string" where
  "Marshal_swaggerUIConfiguration env c = json_object (swaggerUIConfiguration_members env c)"

text \<open>What html/template produces from \<open>defaultSwaggerUITemplate\<close>.\<close>

definition execute_defaultSwaggerUITemplate :: "stdlib \<Rightarrow> swaggerUITemplateParams \<Rightarrow> string" where
  \<open>execute_defaultSwaggerUITemplate env params =
     ''<html lang="en">\<newline>'' @
     ''<head>\<newline>'' @
     ''  <meta charset="utf-8">\<newline>'' @
     ''  <meta name="viewport" content="width=device-width, initial-scale=1">\<newline>'' @
     ''  <title>'' @
     rcdataEscaper env (SwaggerUIConfig.Title (swaggerUITemplateParams.SwaggerUIConfig params)) @
     ''</title>\<newline>'' @
     ''  <link rel="stylesheet" href="https://unpkg.com/swagger-ui-dist/swagger-ui.css" />\<newline>'' @
     ''</head>\<newline>'' @
     ''<body>\<newline>'' @
     ''  <div id="swagger-ui"></div>\<newline>'' @
     ''  <script src="https://unpkg.com/swagger-ui-dist/swagger-ui-bundle.js" crossorigin></script>\<newline>'' @
     ''  <script>\<newline>'' @
     [CHR 0x09] @ ''var configuration = '' @
     swaggerUITemplateParams.SwaggerUIConfiguration params @ '';\<newline>'' @
     ''    window.onload = () => {\<newline>'' @
     [CHR 0x09] @ ''  window.ui = SwaggerUIBundle(configuration);\<newline>'' @
     ''    };\<newline>'' @
     ''  </script>\<newline>'' @
     ''</body>\<newline>'' @
     ''</html>\<newline>''\<close>

definition swaggerUI_Parse ::
  "stdlib \<Rightarrow> swaggerUITemplateParams parser \<Rightarrow> swaggerUITemplateParams parser" where
  "swaggerUI_Parse env custom src =
     (if src = defaultSwaggerUITemplate
      then Inr (\<lambda>params. Inr (execute_defaultSwaggerUITemplate env params))
      else custom src)"

definition swaggerUI_defaults :: "SwaggerUIConfig \<Rightarrow> SwaggerUIConfig" where
  "swaggerUI_defaults config0 =
     (let config = (if SwaggerUIConfig.Template config0 = []
                    then config0\<lparr>SwaggerUIConfig.Template := SwaggerUIConfig.Template DefaultSwaggerUIConfig\<rparr>
                    else config0);
          config = (if SwaggerUIConfig.Title config = []
                    then config\<lparr>SwaggerUIConfig.Title := SwaggerUIConfig.Title DefaultSwaggerUIConfig\<rparr>
                    else config)
      in config)"

definition swaggerUI_handler ::
  "stdlib \<Rightarrow> SwaggerUIConfig \<Rightarrow> bool \<Rightarrow> swaggerUITemplateParams template \<Rightarrow> HandlerFunc" where
  "swaggerUI_handler env config useSpecUrl pageTmpl p relPath =
     (let basePath = TrimSuffix p relPath in
      if \<not> useSpecUrl \<and> HasSuffix p (Join [basePath, ''openapi-spec''])
      then Blob StatusOK ''text/plain; charset=utf-8'' (SwaggerUIConfig.Spec config)
      else
        (let specUrl = (if \<not> useSpecUrl then Join [basePath, ''openapi-spec'']
                        else SwaggerUIConfig.SpecUrl config)
         in if relPath \<noteq> []
            then \<comment> \<open>the document site only works with the base path\<close>
              Redirect StatusFound basePath
            else
              (let swaggerUIConfiguration =
                     \<lparr>Url = specUrl,
                      DomId = ''#swagger-ui'',
                      swaggerUIConfiguration.DeepLinking = SwaggerUIConfig.DeepLinking config,
                      swaggerUIConfiguration.DisplayOperationId =
                        SwaggerUIConfig.DisplayOperationId config\<rparr>;
                   jsonDate = Marshal_swaggerUIConfiguration env swaggerUIConfiguration
               in case pageTmpl \<lparr>swaggerUITemplateParams.SwaggerUIConfig = config,
                                  swaggerUITemplateParams.BasePath = basePath,
                                  swaggerUITemplateParams.SwaggerUIConfiguration = jsonDate\<rparr> of
                    Inl err \<Rightarrow> Inl (Panic err)
                  | Inr html \<Rightarrow> HTML StatusOK html)))"

definition SwaggerUIDocumentsHandler ::
  "stdlib \<Rightarrow> swaggerUITemplateParams parser \<Rightarrow> SwaggerUIConfig \<Rightarrow> error + HandlerFunc" where
  "SwaggerUIDocumentsHandler env custom config0 =
     (let config = swaggerUI_defaults config0 in
      if SwaggerUIConfig.Spec config = [] \<and> SwaggerUIConfig.SpecUrl config = []
      then Inl (Panic ''either Spec or SpecUrl must be set'')
      else
        (let useSpecUrl = (SwaggerUIConfig.Spec config = []) in
         case swaggerUI_Parse env custom (SwaggerUIConfig.Template config) of
           Inl err \<Rightarrow> Inl (Panic err)
         | Inr pageTmpl \<Rightarrow> Inr (swaggerUI_handler env config useSpecUrl pageTmpl)))"

definition SwaggerUIDocuments ::
  "stdlib \<Rightarrow> swaggerUITemplateParams parser \<Rightarrow> Echo \<Rightarrow> string \<Rightarrow> SwaggerUIConfig \<Rightarrow> error + Echo" where
  "SwaggerUIDocuments env custom e pathPrefix config =
     (case SwaggerUIDocumentsHandler env custom config of
        Inl err \<Rightarrow> Inl err
      | Inr h \<Rightarrow> Inr (GET e (pathPrefix @ ''*'') h))"

section \<open>Redoc\<close>

record RedocConfig =
  Spec :: string
  SpecUrl :: string
  Title :: string
  Template :: string
  DisableSearch :: bool
  MinCharacterLengthToInitSearch :: int

text \<open>
  \<^verbatim>\<open>redocTemplateParams\<close> has a field \<^verbatim>\<open>SpecUrl\<close> of its own, which hides the one of the
  embedded configuration: \<^verbatim>\<open>.SpecUrl\<close> in the template is this one.
\<close>

record redocTemplateParams =
  RedocConfig :: RedocConfig
  BasePath :: string
  SpecUrl :: string

definition defaultRedocTemplate :: string where
  \<open>defaultRedocTemplate =
     ''<html lang="en">\<newline>'' @
     ''<head>\<newline>'' @
     ''  <meta charset="utf-8">\<newline>'' @
     ''  <meta name="viewport" content="width=device-width, initial-scale=1">\<newline>'' @
     ''  <title>{{ .Title }}</title>\<newline>'' @
     ''</head>\<newline>'' @
     ''<body>\<newline>'' @
     ''  <redoc\<newline>'' @
     ''    spec-url="{{ .SpecUrl }}"\<newline>'' @
     ''    {{- if .DisableSearch }}\<newline>'' @
     [CHR 0x09] @ ''disable-search="true"\<newline>'' @
     [CHR 0x09] @ ''{{- end }}\<newline>'' @
     [CHR 0x09] @ ''{{- if ne .MinCharacterLengthToInitSearch 0 }}\<newline>'' @
     [CHR 0x09] @ ''min-character-length-to-init-search="{{ .MinCharacterLengthToInitSearch }}"\<newline>'' @
     [CHR 0x09] @ ''{{- end }}\<newline>'' @
     ''  ></redoc>\<newline>'' @
     ''  <script src="https://cdn.redoc.ly/redoc/latest/bundles/redoc.standalone.js"> </script>\<newline>'' @
     ''</body>\<newline>'' @
     ''</html>\<newline>''\<close>

text \<open>The Go literal names no \<^verbatim>\<open>DisableSearch\<close>: it is the zero value, false.\<close>

definition DefaultRedocConfig :: RedocConfig where
  "DefaultRedocConfig =
     \<lparr>RedocConfig.Spec = [],
      RedocConfig.SpecUrl = [],
      RedocConfig.Title = ''API documentation with Redoc'',
      RedocConfig.Template = defaultRedocTemplate,
      RedocConfig.DisableSearch = False,
      RedocConfig.MinCharacterLengthToInitSearch = 0\<rparr>"

text \<open>
  What html/template produces from \<open>defaultRedocTemplate\<close>: the attributes of the \<^verbatim>\<open>redoc\<close>
  tag, the first after a line break and four spaces, the optional ones after a line break
  and a tab.
\<close>

definition redoc_attributes :: "redocTemplateParams \<Rightarrow> (string \<times> attr_value) list" where
  "redoc_attributes params =
     (let c = redocTemplateParams.RedocConfig params in
      [(''spec-url'', UrlAction (redocTemplateParams.SpecUrl params))] @
      (if RedocConfig.DisableSearch c then [(''disable-search'', Literal ''true'')] else []) @
      (if RedocConfig.MinCharacterLengthToInitSearch c \<noteq> 0
       then [(''min-character-length-to-init-search'',
              Action (Itoa (RedocConfig.MinCharacterLengthToInitSearch c)))]
       else []))"

definition execute_defaultRedocTemplate :: "stdlib \<Rightarrow> redocTemplateParams \<Rightarrow> string" where
  \<open>execute_defaultRedocTemplate env params =
     ''<html lang="en">\<newline>'' @
     ''<head>\<newline>'' @
     ''  <meta charset="utf-8">\<newline>'' @
     ''  <meta name="viewport" content="width=device-width, initial-scale=1">\<newline>'' @
     ''  <title>'' @
     rcdataEscaper env (RedocConfig.Title (redocTemplateParams.RedocConfig params)) @
     ''</title>\<newline>'' @
     ''</head>\<newline>'' @
     ''<body>\<newline>'' @
     ''  <redoc'' @
     concat (map (\<lambda>(sep, a). render_attr env sep a)
       (zip [''\<newline>    '', [CHR 0x0A, CHR 0x09], [CHR 0x0A, CHR 0x09]] (redoc_attributes params))) @
     ''\<newline>  ></redoc>\<newline>'' @
     ''  <script src="https://cdn.redoc.ly/redoc/latest/bundles/redoc.standalone.js"> </script>\<newline>'' @
     ''</body>\<newline>'' @
     ''</html>\<newline>''\<close>

definition redoc_Parse :: "stdlib \<Rightarrow> redocTemplateParams parser \<Rightarrow> redocTemplateParams parser" where
  "redoc_Parse env custom src =
     (if src = defaultRedocTemplate then Inr (\<lambda>params. Inr (execute_defaultRedocTemplate env params))
      else custom src)"

definition redoc_defaults :: "RedocConfig \<Rightarrow> RedocConfig" where
  "redoc_defaults config0 =
     (let config = (if RedocConfig.Template config0 = []
                    then config0\<lparr>RedocConfig.Template := RedocConfig.Template DefaultRedocConfig\<rparr>
                    else config0);
          config = (if RedocConfig.Title config = []
                    then config\<lparr>RedocConfig.Title := RedocConfig.Title DefaultRedocConfig\<rparr>
                    else config)
      in config)"

definition redoc_handler ::
  "RedocConfig \<Rightarrow> bool \<Rightarrow> redocTemplateParams template \<Rightarrow> HandlerFunc" where
  "redoc_handler config useSpecUrl pageTmpl p relPath =
     (let basePath = TrimSuffix p relPath in
      if \<not> useSpecUrl \<and> HasSuffix p (Join [basePath, ''openapi-spec''])
      then Blob StatusOK ''text/plain; charset=utf-8'' (RedocConfig.Spec config)
      else
        (let specUrl = (if \<not> useSpecUrl then Join [basePath, ''openapi-spec'']
                        else RedocConfig.SpecUrl config)
         in if relPath \<noteq> []
            then \<comment> \<open>the document site only works with the base path\<close>
              Redirect StatusFound basePath
            else
              (case pageTmpl \<lparr>redocTemplateParams.RedocConfig = config,
                              redocTemplateParams.BasePath = basePath,
                              redocTemplateParams.SpecUrl = specUrl\<rparr> of
                 Inl err \<Rightarrow> Inl (Panic err)
               | Inr html \<Rightarrow> HTML StatusOK html)))"

definition RedocDocumentsHandler ::
  "stdlib \<Rightarrow> redocTemplateParams parser \<Rightarrow> RedocConfig \<Rightarrow> error + HandlerFunc" where
  "RedocDocumentsHandler env custom config0 =
     (let config = redoc_defaults config0 in
      if RedocConfig.Spec config = [] \<and> RedocConfig.SpecUrl config = []
      then Inl (Panic ''either Spec or SpecUrl must be set'')
      else
        (let useSpecUrl = (RedocConfig.Spec config = []) in
         case redoc_Parse env custom (RedocConfig.Template config) of
           Inl err \<Rightarrow> Inl (Panic err)
         | Inr pageTmpl \<Rightarrow> Inr (redoc_handler config useSpecUrl pageTmpl)))"

definition RedocDocuments ::
  "stdlib \<Rightarrow> redocTemplateParams parser \<Rightarrow> Echo \<Rightarrow> string \<Rightarrow> RedocConfig \<Rightarrow> error + Echo" where
  "RedocDocuments env custom e pathPrefix config =
     (case RedocDocumentsHandler env custom config of
        Inl err \<Rightarrow> Inl err
      | Inr h \<Rightarrow> Inr (GET e (pathPrefix @ ''*'') h))"

section \<open>The specification's words\<close>


text \<open>
  The responses that the claims name: the raw specification as plain text, the redirect to
  the base path, and an HTML page.
\<close>

definition raw_spec_response :: "string \<Rightarrow> response" where
  "raw_spec_response spec =
     \<lparr>status = 200, header = [(''Content-Type'', ''text/plain; charset=utf-8'')], body = spec\<rparr>"

definition found_response :: "string \<Rightarrow> response" where
  "found_response url = \<lparr>status = 302, header = [(''Location'', url)], body = []\<rparr>"

definition html_response :: "string \<Rightarrow> response" where
  "html_response html =
     \<lparr>status = 200, header = [(''Content-Type'', ''text/html; charset=UTF-8'')], body = html\<rparr>"



section \<open>Concrete inputs\<close>

text \<open>
  An instance of the library parameters for evaluating the handlers on concrete requests:
  escapers that change nothing (what the Go escapers do on text without special
  characters), a JSON encoder that only adds the quotes, and a parser that knows no
  template but the built-in ones. The configurations are the Go composite literals with
  one field set and the zero value everywhere else.
\<close>

definition plain_env :: stdlib where
  "plain_env =
     \<lparr>rcdataEscaper = (\<lambda>s. s), attrEscaper = (\<lambda>s. s), urlAttrEscaper = (\<lambda>s. s),
      jsonString = (\<lambda>s. [CHR 0x22] @ s @ [CHR 0x22])\<rparr>"

definition no_custom :: "'p parser" where
  "no_custom src = Inl ''template: parse error''"

definition inline_ElementsConfig :: ElementsConfig where
  "inline_ElementsConfig =
     \<lparr>ElementsConfig.Spec = ''openapi: 3.0.0'',
      ElementsConfig.SpecUrl = [],
      ElementsConfig.Title = [],
      ElementsConfig.Template = [],
      ElementsConfig.Router = [],
      ElementsConfig.Layout = [],
      ElementsConfig.HideInternal = False,
      ElementsConfig.HideTryIt = False,
      ElementsConfig.HideSchemas = False,
      ElementsConfig.HideExport = False,
      ElementsConfig.TryItCorsProxy = [],
      ElementsConfig.TryItCredentialsPolicy = [],
      ElementsConfig.Logo = []\<rparr>"

definition inline_ScalarConfig :: ScalarConfig where
  "inline_ScalarConfig =
     \<lparr>ScalarConfig.Spec = ''openapi: 3.0.0'',
      ScalarConfig.SpecUrl = [],
      ScalarConfig.Title = [],
      ScalarConfig.Template = [],
      ScalarConfig.IsEditable = False,
      ScalarConfig.ProxyUrl = [],
      ScalarConfig.DarkMode = False,
      ScalarConfig.Layout = [],
      ScalarConfig.Theme = [],
      ScalarConfig.HideSidebar = False,
      ScalarConfig.SearchHotKey = []\<rparr>"

definition inline_SwaggerUIConfig :: SwaggerUIConfig where
  "inline_SwaggerUIConfig =
     \<lparr>SwaggerUIConfig.Spec = ''openapi: 3.0.0'',
      SwaggerUIConfig.SpecUrl = [],
      SwaggerUIConfig.Title = [],
      SwaggerUIConfig.Template = [],
      SwaggerUIConfig.DeepLinking = False,
      SwaggerUIConfig.DisplayOperationId = False\<rparr>"

definition inline_RedocConfig :: RedocConfig where
  "inline_RedocConfig =
     \<lparr>RedocConfig.Spec = ''openapi: 3.0.0'',
      RedocConfig.SpecUrl = [],
      RedocConfig.Title = [],
      RedocConfig.Template = [],
      RedocConfig.DisableSearch = False,
      RedocConfig.MinCharacterLengthToInitSearch = 0\<rparr>"







section \<open>Library facts\<close>

lemma HasSuffix_iff_suffix: "HasSuffix s sfx \<longleftrightarrow> suffix sfx s"
  unfolding HasSuffix_def suffix_def
  by (metis append_eq_conv_conj append_take_drop_id diff_add_inverse2 length_append length_drop le_add2)

lemma HTML_eq: "HTML StatusOK html = Inr (html_response html)"
  by (simp add: HTML_def Blob_def StatusOK_def html_response_def)

lemma Blob_raw_eq: "Blob StatusOK ''text/plain; charset=utf-8'' spec = Inr (raw_spec_response spec)"
  by (simp add: Blob_def StatusOK_def raw_spec_response_def)

lemma Redirect_eq: "Redirect StatusFound url = Inr (found_response url)"
  by (simp add: Redirect_def StatusFound_def found_response_def)

lemma responses_distinct:
  "found_response url \<noteq> raw_spec_response spec"
  "html_response html \<noteq> raw_spec_response spec"
  "found_response url \<noteq> html_response html"
  "raw_spec_response spec \<noteq> found_response url"
  "raw_spec_response spec \<noteq> html_response html"
  "html_response html \<noteq> found_response url"
  by (simp_all add: found_response_def raw_spec_response_def html_response_def)


subsection \<open>What a built handler is\<close>

lemma elements_defaults_spec:
  "ElementsConfig.Spec (elements_defaults c) = ElementsConfig.Spec c"
  "ElementsConfig.SpecUrl (elements_defaults c) = ElementsConfig.SpecUrl c"
  by (simp_all add: elements_defaults_def Let_def)

lemma scalar_defaults_spec:
  "ScalarConfig.Spec (scalar_defaults c) = ScalarConfig.Spec c"
  "ScalarConfig.SpecUrl (scalar_defaults c) = ScalarConfig.SpecUrl c"
  by (simp_all add: scalar_defaults_def Let_def)

lemma swaggerUI_defaults_spec:
  "SwaggerUIConfig.Spec (swaggerUI_defaults c) = SwaggerUIConfig.Spec c"
  "SwaggerUIConfig.SpecUrl (swaggerUI_defaults c) = SwaggerUIConfig.SpecUrl c"
  by (simp_all add: swaggerUI_defaults_def Let_def)

lemma redoc_defaults_spec:
  "RedocConfig.Spec (redoc_defaults c) = RedocConfig.Spec c"
  "RedocConfig.SpecUrl (redoc_defaults c) = RedocConfig.SpecUrl c"
  by (simp_all add: redoc_defaults_def Let_def)

lemma ElementsDocumentsHandler_built:
  assumes "ElementsDocumentsHandler env custom c = Inr h"
  shows "\<not> (ElementsConfig.Spec c = [] \<and> ElementsConfig.SpecUrl c = [])"
    and "\<exists>t. elements_Parse env custom (ElementsConfig.Template (elements_defaults c)) = Inr t
             \<and> h = elements_handler (elements_defaults c) (ElementsConfig.Spec c = []) t"
  using assms unfolding ElementsDocumentsHandler_def Let_def elements_defaults_spec
  by (auto split: if_splits sum.splits)

lemma ScalarDocumentsHandler_built:
  assumes "ScalarDocumentsHandler env custom c = Inr h"
  shows "\<not> (ScalarConfig.Spec c = [] \<and> ScalarConfig.SpecUrl c = [])"
    and "\<exists>t. scalar_Parse env custom (ScalarConfig.Template (scalar_defaults c)) = Inr t
             \<and> h = scalar_handler env (scalar_defaults c) (ScalarConfig.Spec c = []) t"
  using assms unfolding ScalarDocumentsHandler_def Let_def scalar_defaults_spec
  by (auto split: if_splits sum.splits)

lemma SwaggerUIDocumentsHandler_built:
  assumes "SwaggerUIDocumentsHandler env custom c = Inr h"
  shows "\<not> (SwaggerUIConfig.Spec c = [] \<and> SwaggerUIConfig.SpecUrl c = [])"
    and "\<exists>t. swaggerUI_Parse env custom (SwaggerUIConfig.Template (swaggerUI_defaults c)) = Inr t
             \<and> h = swaggerUI_handler env (swaggerUI_defaults c) (SwaggerUIConfig.Spec c = []) t"
  using assms unfolding SwaggerUIDocumentsHandler_def Let_def swaggerUI_defaults_spec
  by (auto split: if_splits sum.splits)

lemma RedocDocumentsHandler_built:
  assumes "RedocDocumentsHandler env custom c = Inr h"
  shows "\<not> (RedocConfig.Spec c = [] \<and> RedocConfig.SpecUrl c = [])"
    and "\<exists>t. redoc_Parse env custom (RedocConfig.Template (redoc_defaults c)) = Inr t
             \<and> h = redoc_handler (redoc_defaults c) (RedocConfig.Spec c = []) t"
  using assms unfolding RedocDocumentsHandler_def Let_def redoc_defaults_spec
  by (auto split: if_splits sum.splits)

subsection \<open>The three outcomes of a request\<close>

lemma elements_handler_cases:
  "elements_handler c u t p relPath =
     (if \<not> u \<and> HasSuffix p (Join [TrimSuffix p relPath, ''openapi-spec''])
      then Inr (raw_spec_response (ElementsConfig.Spec c))
      else if ElementsConfig.Router c \<noteq> ''history'' \<and> relPath \<noteq> []
      then Inr (found_response (TrimSuffix p relPath))
      else (case t \<lparr>elementsTemplateParams.ElementsConfig = c,
                      elementsTemplateParams.BasePath = TrimSuffix p relPath,
                      elementsTemplateParams.ApiDescriptionUrl =
                        (if \<not> u then Join [TrimSuffix p relPath, ''openapi-spec'']
                         else ElementsConfig.SpecUrl c)\<rparr> of
              Inl err \<Rightarrow> Inl (Panic err)
            | Inr html \<Rightarrow> Inr (html_response html)))"
  unfolding elements_handler_def Let_def Blob_raw_eq Redirect_eq HTML_eq ElementsRouterHistory_def
  by simp

lemma scalar_handler_cases:
  "scalar_handler env c u t p relPath =
     (if \<not> u \<and> HasSuffix p (Join [TrimSuffix p relPath, ''openapi-spec''])
      then Inr (raw_spec_response (ScalarConfig.Spec c))
      else if relPath \<noteq> []
      then Inr (found_response (TrimSuffix p relPath))
      else (case t \<lparr>scalarTemplateParams.ScalarConfig = c,
                      scalarTemplateParams.BasePath = TrimSuffix p relPath,
                      scalarTemplateParams.ApiReferenceConfiguration =
                        Marshal_apiReferenceConfiguration env
                          \<lparr>apiReferenceConfiguration.IsEditable = ScalarConfig.IsEditable c,
                           apiReferenceConfiguration.Spec =
                             \<lparr>URL = (if \<not> u then Join [TrimSuffix p relPath, ''openapi-spec'']
                                     else ScalarConfig.SpecUrl c)\<rparr>,
                           apiReferenceConfiguration.ProxyUrl = ScalarConfig.ProxyUrl c,
                           apiReferenceConfiguration.DarkMode = ScalarConfig.DarkMode c,
                           apiReferenceConfiguration.Layout = ScalarConfig.Layout c,
                           apiReferenceConfiguration.Theme = ScalarConfig.Theme c,
                           apiReferenceConfiguration.ShowSidebar = (\<not> ScalarConfig.HideSidebar c),
                           apiReferenceConfiguration.SearchHotKey = ScalarConfig.SearchHotKey c\<rparr>\<rparr> of
              Inl err \<Rightarrow> Inl (Panic err)
            | Inr html \<Rightarrow> Inr (html_response html)))"
  unfolding scalar_handler_def Let_def Blob_raw_eq Redirect_eq HTML_eq
  by simp

lemma swaggerUI_handler_cases:
  "swaggerUI_handler env c u t p relPath =
     (if \<not> u \<and> HasSuffix p (Join [TrimSuffix p relPath, ''openapi-spec''])
      then Inr (raw_spec_response (SwaggerUIConfig.Spec c))
      else if relPath \<noteq> []
      then Inr (found_response (TrimSuffix p relPath))
      else (case t \<lparr>swaggerUITemplateParams.SwaggerUIConfig = c,
                      swaggerUITemplateParams.BasePath = TrimSuffix p relPath,
                      swaggerUITemplateParams.SwaggerUIConfiguration =
                        Marshal_swaggerUIConfiguration env
                          \<lparr>Url = (if \<not> u then Join [TrimSuffix p relPath, ''openapi-spec'']
                                   else SwaggerUIConfig.SpecUrl c),
                           DomId = ''#swagger-ui'',
                           swaggerUIConfiguration.DeepLinking = SwaggerUIConfig.DeepLinking c,
                           swaggerUIConfiguration.DisplayOperationId =
                             SwaggerUIConfig.DisplayOperationId c\<rparr>\<rparr> of
              Inl err \<Rightarrow> Inl (Panic err)
            | Inr html \<Rightarrow> Inr (html_response html)))"
  unfolding swaggerUI_handler_def Let_def Blob_raw_eq Redirect_eq HTML_eq
  by simp

lemma redoc_handler_cases:
  "redoc_handler c u t p relPath =
     (if \<not> u \<and> HasSuffix p (Join [TrimSuffix p relPath, ''openapi-spec''])
      then Inr (raw_spec_response (RedocConfig.Spec c))
      else if relPath \<noteq> []
      then Inr (found_response (TrimSuffix p relPath))
      else (case t \<lparr>redocTemplateParams.RedocConfig = c,
                      redocTemplateParams.BasePath = TrimSuffix p relPath,
                      redocTemplateParams.SpecUrl =
                        (if \<not> u then Join [TrimSuffix p relPath, ''openapi-spec'']
                         else RedocConfig.SpecUrl c)\<rparr> of
              Inl err \<Rightarrow> Inl (Panic err)
            | Inr html \<Rightarrow> Inr (html_response html)))"
  unfolding redoc_handler_def Let_def Blob_raw_eq Redirect_eq HTML_eq
  by simp



subsection \<open>The normalized configurations\<close>






subsection \<open>The handlers of the concrete configurations\<close>

lemma inline_Elements_built:
  "ElementsDocumentsHandler plain_env no_custom inline_ElementsConfig =
     Inr (elements_handler (elements_defaults inline_ElementsConfig) False
            (\<lambda>params. Inr (execute_defaultElementsTemplate plain_env params)))"
  by (simp add: ElementsDocumentsHandler_def elements_defaults_def inline_ElementsConfig_def
      DefaultElementsConfig_def elements_Parse_def Let_def)

lemma inline_Scalar_built:
  "ScalarDocumentsHandler plain_env no_custom inline_ScalarConfig =
     Inr (scalar_handler plain_env (scalar_defaults inline_ScalarConfig) False
            (\<lambda>params. Inr (execute_defaultScalarTemplate plain_env params)))"
  by (simp add: ScalarDocumentsHandler_def scalar_defaults_def inline_ScalarConfig_def
      DefaultScalarConfig_def scalar_Parse_def Let_def)

lemma inline_SwaggerUI_built:
  "SwaggerUIDocumentsHandler plain_env no_custom inline_SwaggerUIConfig =
     Inr (swaggerUI_handler plain_env (swaggerUI_defaults inline_SwaggerUIConfig) False
            (\<lambda>params. Inr (execute_defaultSwaggerUITemplate plain_env params)))"
  by (simp add: SwaggerUIDocumentsHandler_def swaggerUI_defaults_def inline_SwaggerUIConfig_def
      DefaultSwaggerUIConfig_def swaggerUI_Parse_def Let_def)

lemma inline_Redoc_built:
  "RedocDocumentsHandler plain_env no_custom inline_RedocConfig =
     Inr (redoc_handler (redoc_defaults inline_RedocConfig) False
            (\<lambda>params. Inr (execute_defaultRedocTemplate plain_env params)))"
  by (simp add: RedocDocumentsHandler_def redoc_defaults_def inline_RedocConfig_def
      DefaultRedocConfig_def redoc_Parse_def Let_def)

lemma inline_spec:
  "ElementsConfig.Spec inline_ElementsConfig = ''openapi: 3.0.0''"
  "ScalarConfig.Spec inline_ScalarConfig = ''openapi: 3.0.0''"
  "SwaggerUIConfig.Spec inline_SwaggerUIConfig = ''openapi: 3.0.0''"
  "RedocConfig.Spec inline_RedocConfig = ''openapi: 3.0.0''"
  by (simp_all add: inline_ElementsConfig_def inline_ScalarConfig_def inline_SwaggerUIConfig_def
      inline_RedocConfig_def)

lemma docs_paths:
  "TrimSuffix ''/docs/openapi-spec'' ''/openapi-spec'' = ''/docs''"
  "TrimSuffix ''/docs/guide'' ''/guide'' = ''/docs''"
  "TrimSuffix ''/a/a/openapi-spec'' ''/a/openapi-spec'' = ''/a''"
  "TrimSuffix ''/docs'' [] = ''/docs''"
  by (simp_all add: TrimSuffix_def HasSuffix_def)

lemma docs_joins:
  "Join [''/docs'', ''openapi-spec''] = ''/docs/openapi-spec''"
  "Join [''/a'', ''openapi-spec''] = ''/a/openapi-spec''"
  by (simp_all add: Join_def Clean_def clean_step_def)

lemma docs_suffixes:
  "HasSuffix ''/docs/openapi-spec'' ''/docs/openapi-spec''"
  "HasSuffix ''/a/a/openapi-spec'' ''/a/openapi-spec''"
  "\<not> HasSuffix ''/docs/guide'' ''/docs/openapi-spec''"
  "\<not> HasSuffix ''/docs'' ''/docs/openapi-spec''"
  by (simp_all add: HasSuffix_def)







section \<open>The base path\<close>

text \<open>
  Claim C10. Every handler computes \<open>basePath\<close> as \<open>TrimSuffix p relPath\<close>. When the
  wildcard remainder \<open>relPath\<close> is not a suffix of the request path \<open>p\<close>, the trim does
  nothing and the base path is the request path unchanged; when it is a suffix, the base
  path is the request path with \<open>relPath\<close> removed from its end. So the base path differs
  from the request path only when \<open>relPath\<close> is an actual (and non-empty) suffix.
\<close>

theorem basePath_trim:
  "(\<not> suffix relPath p \<longrightarrow> TrimSuffix p relPath = p) \<and>
   (suffix relPath p \<longrightarrow> TrimSuffix p relPath @ relPath = p) \<and>
   (TrimSuffix p relPath \<noteq> p \<longrightarrow> suffix relPath p \<and> relPath \<noteq> [])"
proof -
  have a: "\<not> suffix relPath p \<Longrightarrow> TrimSuffix p relPath = p"
    by (simp add: TrimSuffix_def HasSuffix_iff_suffix)
  have b: "TrimSuffix p relPath @ relPath = p" if "suffix relPath p"
  proof -
    from that obtain pre where "p = pre @ relPath"
      by (auto simp: suffix_def)
    then show ?thesis
      using that by (simp add: TrimSuffix_def HasSuffix_iff_suffix)
  qed
  have c: "TrimSuffix p [] = p"
    by (simp add: TrimSuffix_def)
  from a b c show ?thesis
    by blast
qed

theorem basePath_trim_witness:
  "\<not> suffix ''/other'' ''/docs/page'' \<and> TrimSuffix ''/docs/page'' ''/other'' = ''/docs/page'' \<and>
   suffix ''/page'' ''/docs/page'' \<and> TrimSuffix ''/docs/page'' ''/page'' @ ''/page'' = ''/docs/page'' \<and>
   TrimSuffix ''/docs/page'' ''/page'' \<noteq> ''/docs/page'' \<and> ''/page'' \<noteq> []"
proof -
  have n: "\<not> suffix ''/other'' ''/docs/page''"
    by (simp add: suffix_def append_eq_Cons_conv)
  have s: "suffix ''/page'' ''/docs/page''"
    by (simp add: suffix_def)
  have t: "TrimSuffix ''/docs/page'' ''/page'' \<noteq> ''/docs/page''"
    by (simp add: TrimSuffix_def HasSuffix_def)
  from basePath_trim [of "''/other''" "''/docs/page''"] n
  have 1: "TrimSuffix ''/docs/page'' ''/other'' = ''/docs/page''"
    by blast
  from basePath_trim [of "''/page''" "''/docs/page''"] s
  have 2: "TrimSuffix ''/docs/page'' ''/page'' @ ''/page'' = ''/docs/page''"
    by blast
  from n s t 1 2 show ?thesis
    by simp
qed

section \<open>Construction\<close>

text \<open>
  Claim C3. For each of the four providers, a configuration in which both \<open>Spec\<close> and
  \<open>SpecUrl\<close> are empty makes the handler factory panic with the message "either Spec or
  SpecUrl must be set": no handler function comes into being, so no request is ever served
  by it, and the registering call fails with the same panic and adds no route.
\<close>

theorem construction_fails_without_spec_source:
  "(ElementsConfig.Spec cE = [] \<and> ElementsConfig.SpecUrl cE = [] \<longrightarrow>
      ElementsDocumentsHandler env customE cE = Inl (Panic ''either Spec or SpecUrl must be set'') \<and>
      ElementsDocuments env customE e pathPrefix cE = Inl (Panic ''either Spec or SpecUrl must be set'')) \<and>
   (ScalarConfig.Spec cS = [] \<and> ScalarConfig.SpecUrl cS = [] \<longrightarrow>
      ScalarDocumentsHandler env customS cS = Inl (Panic ''either Spec or SpecUrl must be set'') \<and>
      ScalarDocuments env customS e pathPrefix cS = Inl (Panic ''either Spec or SpecUrl must be set'')) \<and>
   (SwaggerUIConfig.Spec cW = [] \<and> SwaggerUIConfig.SpecUrl cW = [] \<longrightarrow>
      SwaggerUIDocumentsHandler env customW cW = Inl (Panic ''either Spec or SpecUrl must be set'') \<and>
      SwaggerUIDocuments env customW e pathPrefix cW = Inl (Panic ''either Spec or SpecUrl must be set'')) \<and>
   (RedocConfig.Spec cR = [] \<and> RedocConfig.SpecUrl cR = [] \<longrightarrow>
      RedocDocumentsHandler env customR cR = Inl (Panic ''either Spec or SpecUrl must be set'') \<and>
      RedocDocuments env customR e pathPrefix cR = Inl (Panic ''either Spec or SpecUrl must be set''))"
proof -
  have E: "ElementsDocumentsHandler env customE cE = Inl (Panic ''either Spec or SpecUrl must be set'')"
    if "ElementsConfig.Spec cE = []" "ElementsConfig.SpecUrl cE = []"
    using that unfolding ElementsDocumentsHandler_def Let_def elements_defaults_spec by simp
  have S: "ScalarDocumentsHandler env customS cS = Inl (Panic ''either Spec or SpecUrl must be set'')"
    if "ScalarConfig.Spec cS = []" "ScalarConfig.SpecUrl cS = []"
    using that unfolding ScalarDocumentsHandler_def Let_def scalar_defaults_spec by simp
  have W: "SwaggerUIDocumentsHandler env customW cW = Inl (Panic ''either Spec or SpecUrl must be set'')"
    if "SwaggerUIConfig.Spec cW = []" "SwaggerUIConfig.SpecUrl cW = []"
    using that unfolding SwaggerUIDocumentsHandler_def Let_def swaggerUI_defaults_spec by simp
  have R: "RedocDocumentsHandler env customR cR = Inl (Panic ''either Spec or SpecUrl must be set'')"
    if "RedocConfig.Spec cR = []" "RedocConfig.SpecUrl cR = []"
    using that unfolding RedocDocumentsHandler_def Let_def redoc_defaults_spec by simp
  show ?thesis
    using E S W R
    by (simp add: ElementsDocuments_def ScalarDocuments_def SwaggerUIDocuments_def RedocDocuments_def)
qed

theorem construction_fails_without_spec_source_witness:
  "ElementsConfig.Spec (inline_ElementsConfig\<lparr>ElementsConfig.Spec := []\<rparr>) = [] \<and>
   ElementsConfig.SpecUrl (inline_ElementsConfig\<lparr>ElementsConfig.Spec := []\<rparr>) = [] \<and>
   ElementsDocumentsHandler plain_env no_custom (inline_ElementsConfig\<lparr>ElementsConfig.Spec := []\<rparr>)
     = Inl (Panic ''either Spec or SpecUrl must be set'') \<and>
   ElementsDocuments plain_env no_custom [] ''/docs'' (inline_ElementsConfig\<lparr>ElementsConfig.Spec := []\<rparr>)
     = Inl (Panic ''either Spec or SpecUrl must be set'') \<and>
   ScalarConfig.Spec (inline_ScalarConfig\<lparr>ScalarConfig.Spec := []\<rparr>) = [] \<and>
   ScalarConfig.SpecUrl (inline_ScalarConfig\<lparr>ScalarConfig.Spec := []\<rparr>) = [] \<and>
   ScalarDocumentsHandler plain_env no_custom (inline_ScalarConfig\<lparr>ScalarConfig.Spec := []\<rparr>)
     = Inl (Panic ''either Spec or SpecUrl must be set'') \<and>
   ScalarDocuments plain_env no_custom [] ''/docs'' (inline_ScalarConfig\<lparr>ScalarConfig.Spec := []\<rparr>)
     = Inl (Panic ''either Spec or SpecUrl must be set'') \<and>
   SwaggerUIConfig.Spec (inline_SwaggerUIConfig\<lparr>SwaggerUIConfig.Spec := []\<rparr>) = [] \<and>
   SwaggerUIConfig.SpecUrl (inline_SwaggerUIConfig\<lparr>SwaggerUIConfig.Spec := []\<rparr>) = [] \<and>
   SwaggerUIDocumentsHandler plain_env no_custom (inline_SwaggerUIConfig\<lparr>SwaggerUIConfig.Spec := []\<rparr>)
     = Inl (Panic ''either Spec or SpecUrl must be set'') \<and>
   SwaggerUIDocuments plain_env no_custom [] ''/docs'' (inline_SwaggerUIConfig\<lparr>SwaggerUIConfig.Spec := []\<rparr>)
     = Inl (Panic ''either Spec or SpecUrl must be set'') \<and>
   RedocConfig.Spec (inline_RedocConfig\<lparr>RedocConfig.Spec := []\<rparr>) = [] \<and>
   RedocConfig.SpecUrl (inline_RedocConfig\<lparr>RedocConfig.Spec := []\<rparr>) = [] \<and>
   RedocDocumentsHandler plain_env no_custom (inline_RedocConfig\<lparr>RedocConfig.Spec := []\<rparr>)
     = Inl (Panic ''either Spec or SpecUrl must be set'') \<and>
   RedocDocuments plain_env no_custom [] ''/docs'' (inline_RedocConfig\<lparr>RedocConfig.Spec := []\<rparr>)
     = Inl (Panic ''either Spec or SpecUrl must be set'')"
proof -
  have hE: "ElementsConfig.Spec (inline_ElementsConfig\<lparr>ElementsConfig.Spec := []\<rparr>) = []"
      "ElementsConfig.SpecUrl (inline_ElementsConfig\<lparr>ElementsConfig.Spec := []\<rparr>) = []"
    by (simp_all add: inline_ElementsConfig_def)
  have hS: "ScalarConfig.Spec (inline_ScalarConfig\<lparr>ScalarConfig.Spec := []\<rparr>) = []"
      "ScalarConfig.SpecUrl (inline_ScalarConfig\<lparr>ScalarConfig.Spec := []\<rparr>) = []"
    by (simp_all add: inline_ScalarConfig_def)
  have hW: "SwaggerUIConfig.Spec (inline_SwaggerUIConfig\<lparr>SwaggerUIConfig.Spec := []\<rparr>) = []"
      "SwaggerUIConfig.SpecUrl (inline_SwaggerUIConfig\<lparr>SwaggerUIConfig.Spec := []\<rparr>) = []"
    by (simp_all add: inline_SwaggerUIConfig_def)
  have hR: "RedocConfig.Spec (inline_RedocConfig\<lparr>RedocConfig.Spec := []\<rparr>) = []"
      "RedocConfig.SpecUrl (inline_RedocConfig\<lparr>RedocConfig.Spec := []\<rparr>) = []"
    by (simp_all add: inline_RedocConfig_def)
  from hE hS hW hR
    construction_fails_without_spec_source
      [where cE = "inline_ElementsConfig\<lparr>ElementsConfig.Spec := []\<rparr>"
         and cS = "inline_ScalarConfig\<lparr>ScalarConfig.Spec := []\<rparr>"
         and cW = "inline_SwaggerUIConfig\<lparr>SwaggerUIConfig.Spec := []\<rparr>"
         and cR = "inline_RedocConfig\<lparr>RedocConfig.Spec := []\<rparr>"
         and env = plain_env and customE = no_custom and customS = no_custom
         and customW = no_custom and customR = no_custom and e = "[]" and pathPrefix = "''/docs''"]
  show ?thesis
    by blast
qed

section \<open>The spec passthrough\<close>

text \<open>
  Claim C1. For each of the four providers and every configuration with a non-empty inline
  \<open>Spec\<close> from which a handler was built: a request whose path ends with the synthetic
  passthrough endpoint, the base path joined with \<open>openapi-spec\<close> (in particular a request
  whose path is that endpoint), is answered with status 200, content type
  \<open>text/plain; charset=utf-8\<close> and the configured inline spec, byte for byte, as the body.
\<close>

theorem spec_passthrough_serves_inline_spec:
  "(ElementsDocumentsHandler env customE cE = Inr hE \<and> ElementsConfig.Spec cE \<noteq> [] \<and>
    HasSuffix p (Join [TrimSuffix p relPath, ''openapi-spec'']) \<longrightarrow>
      hE p relPath = Inr \<lparr>status = 200, header = [(''Content-Type'', ''text/plain; charset=utf-8'')],
                            body = ElementsConfig.Spec cE\<rparr>) \<and>
   (ScalarDocumentsHandler env customS cS = Inr hS \<and> ScalarConfig.Spec cS \<noteq> [] \<and>
    HasSuffix p (Join [TrimSuffix p relPath, ''openapi-spec'']) \<longrightarrow>
      hS p relPath = Inr \<lparr>status = 200, header = [(''Content-Type'', ''text/plain; charset=utf-8'')],
                            body = ScalarConfig.Spec cS\<rparr>) \<and>
   (SwaggerUIDocumentsHandler env customW cW = Inr hW \<and> SwaggerUIConfig.Spec cW \<noteq> [] \<and>
    HasSuffix p (Join [TrimSuffix p relPath, ''openapi-spec'']) \<longrightarrow>
      hW p relPath = Inr \<lparr>status = 200, header = [(''Content-Type'', ''text/plain; charset=utf-8'')],
                            body = SwaggerUIConfig.Spec cW\<rparr>) \<and>
   (RedocDocumentsHandler env customR cR = Inr hR \<and> RedocConfig.Spec cR \<noteq> [] \<and>
    HasSuffix p (Join [TrimSuffix p relPath, ''openapi-spec'']) \<longrightarrow>
      hR p relPath = Inr \<lparr>status = 200, header = [(''Content-Type'', ''text/plain; charset=utf-8'')],
                            body = RedocConfig.Spec cR\<rparr>)"
proof (intro conjI impI)
  assume a: "ElementsDocumentsHandler env customE cE = Inr hE \<and> ElementsConfig.Spec cE \<noteq> [] \<and>
    HasSuffix p (Join [TrimSuffix p relPath, ''openapi-spec''])"
  then obtain t where "hE = elements_handler (elements_defaults cE) (ElementsConfig.Spec cE = []) t"
    using ElementsDocumentsHandler_built(2) by blast
  with a show "hE p relPath = Inr \<lparr>status = 200,
      header = [(''Content-Type'', ''text/plain; charset=utf-8'')], body = ElementsConfig.Spec cE\<rparr>"
    by (simp add: elements_handler_cases elements_defaults_spec raw_spec_response_def)
next
  assume a: "ScalarDocumentsHandler env customS cS = Inr hS \<and> ScalarConfig.Spec cS \<noteq> [] \<and>
    HasSuffix p (Join [TrimSuffix p relPath, ''openapi-spec''])"
  then obtain t where "hS = scalar_handler env (scalar_defaults cS) (ScalarConfig.Spec cS = []) t"
    using ScalarDocumentsHandler_built(2) by blast
  with a show "hS p relPath = Inr \<lparr>status = 200,
      header = [(''Content-Type'', ''text/plain; charset=utf-8'')], body = ScalarConfig.Spec cS\<rparr>"
    by (simp add: scalar_handler_cases scalar_defaults_spec raw_spec_response_def)
next
  assume a: "SwaggerUIDocumentsHandler env customW cW = Inr hW \<and> SwaggerUIConfig.Spec cW \<noteq> [] \<and>
    HasSuffix p (Join [TrimSuffix p relPath, ''openapi-spec''])"
  then obtain t where "hW = swaggerUI_handler env (swaggerUI_defaults cW) (SwaggerUIConfig.Spec cW = []) t"
    using SwaggerUIDocumentsHandler_built(2) by blast
  with a show "hW p relPath = Inr \<lparr>status = 200,
      header = [(''Content-Type'', ''text/plain; charset=utf-8'')], body = SwaggerUIConfig.Spec cW\<rparr>"
    by (simp add: swaggerUI_handler_cases swaggerUI_defaults_spec raw_spec_response_def)
next
  assume a: "RedocDocumentsHandler env customR cR = Inr hR \<and> RedocConfig.Spec cR \<noteq> [] \<and>
    HasSuffix p (Join [TrimSuffix p relPath, ''openapi-spec''])"
  then obtain t where "hR = redoc_handler (redoc_defaults cR) (RedocConfig.Spec cR = []) t"
    using RedocDocumentsHandler_built(2) by blast
  with a show "hR p relPath = Inr \<lparr>status = 200,
      header = [(''Content-Type'', ''text/plain; charset=utf-8'')], body = RedocConfig.Spec cR\<rparr>"
    by (simp add: redoc_handler_cases redoc_defaults_spec raw_spec_response_def)
qed

theorem spec_passthrough_serves_inline_spec_witness:
  "\<not> isl (ElementsDocumentsHandler plain_env no_custom inline_ElementsConfig) \<and>
   \<not> isl (ScalarDocumentsHandler plain_env no_custom inline_ScalarConfig) \<and>
   \<not> isl (SwaggerUIDocumentsHandler plain_env no_custom inline_SwaggerUIConfig) \<and>
   \<not> isl (RedocDocumentsHandler plain_env no_custom inline_RedocConfig) \<and>
   ''/docs/openapi-spec'' = Join [TrimSuffix ''/docs/openapi-spec'' ''/openapi-spec'', ''openapi-spec''] \<and>
   projr (ElementsDocumentsHandler plain_env no_custom inline_ElementsConfig)
       ''/docs/openapi-spec'' ''/openapi-spec''
     = Inr \<lparr>status = 200, header = [(''Content-Type'', ''text/plain; charset=utf-8'')],
            body = ''openapi: 3.0.0''\<rparr> \<and>
   projr (ScalarDocumentsHandler plain_env no_custom inline_ScalarConfig)
       ''/docs/openapi-spec'' ''/openapi-spec''
     = Inr \<lparr>status = 200, header = [(''Content-Type'', ''text/plain; charset=utf-8'')],
            body = ''openapi: 3.0.0''\<rparr> \<and>
   projr (SwaggerUIDocumentsHandler plain_env no_custom inline_SwaggerUIConfig)
       ''/docs/openapi-spec'' ''/openapi-spec''
     = Inr \<lparr>status = 200, header = [(''Content-Type'', ''text/plain; charset=utf-8'')],
            body = ''openapi: 3.0.0''\<rparr> \<and>
   projr (RedocDocumentsHandler plain_env no_custom inline_RedocConfig)
       ''/docs/openapi-spec'' ''/openapi-spec''
     = Inr \<lparr>status = 200, header = [(''Content-Type'', ''text/plain; charset=utf-8'')],
            body = ''openapi: 3.0.0''\<rparr>"
proof -
  have b: "ElementsDocumentsHandler plain_env no_custom inline_ElementsConfig
             = Inr (projr (ElementsDocumentsHandler plain_env no_custom inline_ElementsConfig))"
      "ScalarDocumentsHandler plain_env no_custom inline_ScalarConfig
             = Inr (projr (ScalarDocumentsHandler plain_env no_custom inline_ScalarConfig))"
      "SwaggerUIDocumentsHandler plain_env no_custom inline_SwaggerUIConfig
             = Inr (projr (SwaggerUIDocumentsHandler plain_env no_custom inline_SwaggerUIConfig))"
      "RedocDocumentsHandler plain_env no_custom inline_RedocConfig
             = Inr (projr (RedocDocumentsHandler plain_env no_custom inline_RedocConfig))"
    by (simp_all add: inline_Elements_built inline_Scalar_built inline_SwaggerUI_built
        inline_Redoc_built)
  have i: "\<not> isl (ElementsDocumentsHandler plain_env no_custom inline_ElementsConfig)"
      "\<not> isl (ScalarDocumentsHandler plain_env no_custom inline_ScalarConfig)"
      "\<not> isl (SwaggerUIDocumentsHandler plain_env no_custom inline_SwaggerUIConfig)"
      "\<not> isl (RedocDocumentsHandler plain_env no_custom inline_RedocConfig)"
    by (simp_all add: inline_Elements_built inline_Scalar_built inline_SwaggerUI_built
        inline_Redoc_built)
  have j: "''/docs/openapi-spec''
             = Join [TrimSuffix ''/docs/openapi-spec'' ''/openapi-spec'', ''openapi-spec'']"
    by (simp add: docs_paths docs_joins)
  have s: "HasSuffix ''/docs/openapi-spec''
             (Join [TrimSuffix ''/docs/openapi-spec'' ''/openapi-spec'', ''openapi-spec''])"
    by (simp add: docs_paths docs_joins docs_suffixes)
  have n: "ElementsConfig.Spec inline_ElementsConfig \<noteq> []" "ScalarConfig.Spec inline_ScalarConfig \<noteq> []"
      "SwaggerUIConfig.Spec inline_SwaggerUIConfig \<noteq> []" "RedocConfig.Spec inline_RedocConfig \<noteq> []"
    by (simp_all add: inline_spec)
  note c = spec_passthrough_serves_inline_spec
      [where p = "''/docs/openapi-spec''" and relPath = "''/openapi-spec''"
         and env = plain_env and customE = no_custom and customS = no_custom
         and customW = no_custom and customR = no_custom
         and cE = inline_ElementsConfig and cS = inline_ScalarConfig
         and cW = inline_SwaggerUIConfig and cR = inline_RedocConfig
         and hE = "projr (ElementsDocumentsHandler plain_env no_custom inline_ElementsConfig)"
         and hS = "projr (ScalarDocumentsHandler plain_env no_custom inline_ScalarConfig)"
         and hW = "projr (SwaggerUIDocumentsHandler plain_env no_custom inline_SwaggerUIConfig)"
         and hR = "projr (RedocDocumentsHandler plain_env no_custom inline_RedocConfig)"]
  from c [THEN conjunct1] b(1) s n(1)
  have rE: "projr (ElementsDocumentsHandler plain_env no_custom inline_ElementsConfig)
       ''/docs/openapi-spec'' ''/openapi-spec''
     = Inr \<lparr>status = 200, header = [(''Content-Type'', ''text/plain; charset=utf-8'')],
            body = ElementsConfig.Spec inline_ElementsConfig\<rparr>"
    by blast
  from c [THEN conjunct2, THEN conjunct1] b(2) s n(2)
  have rS: "projr (ScalarDocumentsHandler plain_env no_custom inline_ScalarConfig)
       ''/docs/openapi-spec'' ''/openapi-spec''
     = Inr \<lparr>status = 200, header = [(''Content-Type'', ''text/plain; charset=utf-8'')],
            body = ScalarConfig.Spec inline_ScalarConfig\<rparr>"
    by blast
  from c [THEN conjunct2, THEN conjunct2, THEN conjunct1] b(3) s n(3)
  have rW: "projr (SwaggerUIDocumentsHandler plain_env no_custom inline_SwaggerUIConfig)
       ''/docs/openapi-spec'' ''/openapi-spec''
     = Inr \<lparr>status = 200, header = [(''Content-Type'', ''text/plain; charset=utf-8'')],
            body = SwaggerUIConfig.Spec inline_SwaggerUIConfig\<rparr>"
    by blast
  from c [THEN conjunct2, THEN conjunct2, THEN conjunct2] b(4) s n(4)
  have rR: "projr (RedocDocumentsHandler plain_env no_custom inline_RedocConfig)
       ''/docs/openapi-spec'' ''/openapi-spec''
     = Inr \<lparr>status = 200, header = [(''Content-Type'', ''text/plain; charset=utf-8'')],
            body = RedocConfig.Spec inline_RedocConfig\<rparr>"
    by blast
  from i j rE rS rW rR show ?thesis
    unfolding inline_spec by blast
qed

text \<open>
  Claim C2, as amended. The handlers compare with \<open>HasSuffix\<close>, not with equality. For
  each provider, a built handler answers a request with the raw-spec response exactly when
  the configuration has an inline spec and the base path joined with \<open>openapi-spec\<close> is a
  suffix of the request path. A path equal to that string is one such path, and a path of
  which it is a proper suffix is another.
\<close>

theorem raw_spec_served_iff_suffix_match:
  "(ElementsDocumentsHandler env customE cE = Inr hE \<longrightarrow>
      (hE p relPath = Inr (raw_spec_response (ElementsConfig.Spec cE)) \<longleftrightarrow>
         ElementsConfig.Spec cE \<noteq> [] \<and> HasSuffix p (Join [TrimSuffix p relPath, ''openapi-spec'']))) \<and>
   (ScalarDocumentsHandler env customS cS = Inr hS \<longrightarrow>
      (hS p relPath = Inr (raw_spec_response (ScalarConfig.Spec cS)) \<longleftrightarrow>
         ScalarConfig.Spec cS \<noteq> [] \<and> HasSuffix p (Join [TrimSuffix p relPath, ''openapi-spec'']))) \<and>
   (SwaggerUIDocumentsHandler env customW cW = Inr hW \<longrightarrow>
      (hW p relPath = Inr (raw_spec_response (SwaggerUIConfig.Spec cW)) \<longleftrightarrow>
         SwaggerUIConfig.Spec cW \<noteq> [] \<and> HasSuffix p (Join [TrimSuffix p relPath, ''openapi-spec'']))) \<and>
   (RedocDocumentsHandler env customR cR = Inr hR \<longrightarrow>
      (hR p relPath = Inr (raw_spec_response (RedocConfig.Spec cR)) \<longleftrightarrow>
         RedocConfig.Spec cR \<noteq> [] \<and> HasSuffix p (Join [TrimSuffix p relPath, ''openapi-spec''])))"
proof (intro conjI impI)
  assume "ElementsDocumentsHandler env customE cE = Inr hE"
  then obtain t where "hE = elements_handler (elements_defaults cE) (ElementsConfig.Spec cE = []) t"
    using ElementsDocumentsHandler_built(2) by blast
  then show "hE p relPath = Inr (raw_spec_response (ElementsConfig.Spec cE)) \<longleftrightarrow>
      ElementsConfig.Spec cE \<noteq> [] \<and> HasSuffix p (Join [TrimSuffix p relPath, ''openapi-spec''])"
    by (auto simp: elements_handler_cases elements_defaults_spec responses_distinct
        split: sum.splits)
next
  assume "ScalarDocumentsHandler env customS cS = Inr hS"
  then obtain t where "hS = scalar_handler env (scalar_defaults cS) (ScalarConfig.Spec cS = []) t"
    using ScalarDocumentsHandler_built(2) by blast
  then show "hS p relPath = Inr (raw_spec_response (ScalarConfig.Spec cS)) \<longleftrightarrow>
      ScalarConfig.Spec cS \<noteq> [] \<and> HasSuffix p (Join [TrimSuffix p relPath, ''openapi-spec''])"
    by (auto simp: scalar_handler_cases scalar_defaults_spec responses_distinct
        split: sum.splits)
next
  assume "SwaggerUIDocumentsHandler env customW cW = Inr hW"
  then obtain t where "hW = swaggerUI_handler env (swaggerUI_defaults cW) (SwaggerUIConfig.Spec cW = []) t"
    using SwaggerUIDocumentsHandler_built(2) by blast
  then show "hW p relPath = Inr (raw_spec_response (SwaggerUIConfig.Spec cW)) \<longleftrightarrow>
      SwaggerUIConfig.Spec cW \<noteq> [] \<and> HasSuffix p (Join [TrimSuffix p relPath, ''openapi-spec''])"
    by (auto simp: swaggerUI_handler_cases swaggerUI_defaults_spec responses_distinct
        split: sum.splits)
next
  assume "RedocDocumentsHandler env customR cR = Inr hR"
  then obtain t where "hR = redoc_handler (redoc_defaults cR) (RedocConfig.Spec cR = []) t"
    using RedocDocumentsHandler_built(2) by blast
  then show "hR p relPath = Inr (raw_spec_response (RedocConfig.Spec cR)) \<longleftrightarrow>
      RedocConfig.Spec cR \<noteq> [] \<and> HasSuffix p (Join [TrimSuffix p relPath, ''openapi-spec''])"
    by (auto simp: redoc_handler_cases redoc_defaults_spec responses_distinct
        split: sum.splits)
qed

theorem raw_spec_served_iff_suffix_match_witness:
  "\<not> isl (ElementsDocumentsHandler plain_env no_custom inline_ElementsConfig) \<and>
   \<not> isl (ScalarDocumentsHandler plain_env no_custom inline_ScalarConfig) \<and>
   \<not> isl (SwaggerUIDocumentsHandler plain_env no_custom inline_SwaggerUIConfig) \<and>
   \<not> isl (RedocDocumentsHandler plain_env no_custom inline_RedocConfig) \<and>
   projr (ElementsDocumentsHandler plain_env no_custom inline_ElementsConfig)
       ''/docs/openapi-spec'' ''/openapi-spec'' = Inr (raw_spec_response ''openapi: 3.0.0'') \<and>
   projr (ScalarDocumentsHandler plain_env no_custom inline_ScalarConfig)
       ''/docs/openapi-spec'' ''/openapi-spec'' = Inr (raw_spec_response ''openapi: 3.0.0'') \<and>
   projr (SwaggerUIDocumentsHandler plain_env no_custom inline_SwaggerUIConfig)
       ''/docs/guide'' ''/guide'' \<noteq> Inr (raw_spec_response ''openapi: 3.0.0'') \<and>
   projr (RedocDocumentsHandler plain_env no_custom inline_RedocConfig)
       ''/docs/guide'' ''/guide'' \<noteq> Inr (raw_spec_response ''openapi: 3.0.0'')"
proof -
  have b: "ElementsDocumentsHandler plain_env no_custom inline_ElementsConfig
             = Inr (projr (ElementsDocumentsHandler plain_env no_custom inline_ElementsConfig))"
      "ScalarDocumentsHandler plain_env no_custom inline_ScalarConfig
             = Inr (projr (ScalarDocumentsHandler plain_env no_custom inline_ScalarConfig))"
      "SwaggerUIDocumentsHandler plain_env no_custom inline_SwaggerUIConfig
             = Inr (projr (SwaggerUIDocumentsHandler plain_env no_custom inline_SwaggerUIConfig))"
      "RedocDocumentsHandler plain_env no_custom inline_RedocConfig
             = Inr (projr (RedocDocumentsHandler plain_env no_custom inline_RedocConfig))"
    by (simp_all add: inline_Elements_built inline_Scalar_built inline_SwaggerUI_built
        inline_Redoc_built)
  have i: "\<not> isl (ElementsDocumentsHandler plain_env no_custom inline_ElementsConfig)"
      "\<not> isl (ScalarDocumentsHandler plain_env no_custom inline_ScalarConfig)"
      "\<not> isl (SwaggerUIDocumentsHandler plain_env no_custom inline_SwaggerUIConfig)"
      "\<not> isl (RedocDocumentsHandler plain_env no_custom inline_RedocConfig)"
    by (simp_all add: inline_Elements_built inline_Scalar_built inline_SwaggerUI_built
        inline_Redoc_built)
  have s: "HasSuffix ''/docs/openapi-spec''
             (Join [TrimSuffix ''/docs/openapi-spec'' ''/openapi-spec'', ''openapi-spec''])"
      "\<not> HasSuffix ''/docs/guide'' (Join [TrimSuffix ''/docs/guide'' ''/guide'', ''openapi-spec''])"
    by (simp_all add: docs_paths docs_joins docs_suffixes)
  have n: "ElementsConfig.Spec inline_ElementsConfig \<noteq> []" "ScalarConfig.Spec inline_ScalarConfig \<noteq> []"
    by (simp_all add: inline_spec)
  note c = raw_spec_served_iff_suffix_match
      [where env = plain_env and customE = no_custom and customS = no_custom
         and customW = no_custom and customR = no_custom
         and cE = inline_ElementsConfig and cS = inline_ScalarConfig
         and cW = inline_SwaggerUIConfig and cR = inline_RedocConfig
         and hE = "projr (ElementsDocumentsHandler plain_env no_custom inline_ElementsConfig)"
         and hS = "projr (ScalarDocumentsHandler plain_env no_custom inline_ScalarConfig)"
         and hW = "projr (SwaggerUIDocumentsHandler plain_env no_custom inline_SwaggerUIConfig)"
         and hR = "projr (RedocDocumentsHandler plain_env no_custom inline_RedocConfig)"]
  from c [where p = "''/docs/openapi-spec''" and relPath = "''/openapi-spec''", THEN conjunct1]
    b(1) s(1) n(1)
  have rE: "projr (ElementsDocumentsHandler plain_env no_custom inline_ElementsConfig)
       ''/docs/openapi-spec'' ''/openapi-spec''
     = Inr (raw_spec_response (ElementsConfig.Spec inline_ElementsConfig))"
    by blast
  from c [where p = "''/docs/openapi-spec''" and relPath = "''/openapi-spec''",
      THEN conjunct2, THEN conjunct1] b(2) s(1) n(2)
  have rS: "projr (ScalarDocumentsHandler plain_env no_custom inline_ScalarConfig)
       ''/docs/openapi-spec'' ''/openapi-spec''
     = Inr (raw_spec_response (ScalarConfig.Spec inline_ScalarConfig))"
    by blast
  from c [where p = "''/docs/guide''" and relPath = "''/guide''",
      THEN conjunct2, THEN conjunct2, THEN conjunct1] b(3) s(2)
  have rW: "projr (SwaggerUIDocumentsHandler plain_env no_custom inline_SwaggerUIConfig)
       ''/docs/guide'' ''/guide''
     \<noteq> Inr (raw_spec_response (SwaggerUIConfig.Spec inline_SwaggerUIConfig))"
    by blast
  from c [where p = "''/docs/guide''" and relPath = "''/guide''",
      THEN conjunct2, THEN conjunct2, THEN conjunct2] b(4) s(2)
  have rR: "projr (RedocDocumentsHandler plain_env no_custom inline_RedocConfig)
       ''/docs/guide'' ''/guide''
     \<noteq> Inr (raw_spec_response (RedocConfig.Spec inline_RedocConfig))"
    by blast
  from i rE rS rW rR show ?thesis
    unfolding inline_spec by blast
qed

text \<open>
  The claim as it was stated fails: mounted at \<open>/a\<close>, a request for \<open>/a/a/openapi-spec\<close>
  has the wildcard remainder \<open>/a/openapi-spec\<close> and the base path \<open>/a\<close>; the synthetic
  endpoint \<open>/a/openapi-spec\<close> is a proper suffix of the request path, not equal to it, and
  every provider answers with the raw spec.
\<close>

theorem raw_spec_served_on_proper_suffix:
  "Join [TrimSuffix ''/a/a/openapi-spec'' ''/a/openapi-spec'', ''openapi-spec''] = ''/a/openapi-spec'' \<and>
   ''/a/a/openapi-spec'' \<noteq> ''/a/openapi-spec'' \<and>
   \<not> isl (ElementsDocumentsHandler plain_env no_custom inline_ElementsConfig) \<and>
   \<not> isl (ScalarDocumentsHandler plain_env no_custom inline_ScalarConfig) \<and>
   \<not> isl (SwaggerUIDocumentsHandler plain_env no_custom inline_SwaggerUIConfig) \<and>
   \<not> isl (RedocDocumentsHandler plain_env no_custom inline_RedocConfig) \<and>
   projr (ElementsDocumentsHandler plain_env no_custom inline_ElementsConfig)
       ''/a/a/openapi-spec'' ''/a/openapi-spec'' = Inr (raw_spec_response ''openapi: 3.0.0'') \<and>
   projr (ScalarDocumentsHandler plain_env no_custom inline_ScalarConfig)
       ''/a/a/openapi-spec'' ''/a/openapi-spec'' = Inr (raw_spec_response ''openapi: 3.0.0'') \<and>
   projr (SwaggerUIDocumentsHandler plain_env no_custom inline_SwaggerUIConfig)
       ''/a/a/openapi-spec'' ''/a/openapi-spec'' = Inr (raw_spec_response ''openapi: 3.0.0'') \<and>
   projr (RedocDocumentsHandler plain_env no_custom inline_RedocConfig)
       ''/a/a/openapi-spec'' ''/a/openapi-spec'' = Inr (raw_spec_response ''openapi: 3.0.0'')"
  by (simp add: inline_Elements_built inline_Scalar_built inline_SwaggerUI_built inline_Redoc_built
      elements_handler_cases scalar_handler_cases swaggerUI_handler_cases redoc_handler_cases
      elements_defaults_spec scalar_defaults_spec swaggerUI_defaults_spec redoc_defaults_spec
      inline_spec docs_paths docs_joins docs_suffixes)

section \<open>Sub-paths\<close>

text \<open>
  Claim C4. For Scalar, Swagger UI and Redoc: a request with a non-empty wildcard remainder
  that does not hit the spec passthrough (the configuration has no inline spec, or the
  synthetic endpoint is not a suffix of the path) is answered with 302 Found and the
  Location header set to the base path.
\<close>

theorem subpath_redirects_to_basePath:
  "(ScalarDocumentsHandler env customS cS = Inr hS \<and> relPath \<noteq> [] \<and>
    \<not> (ScalarConfig.Spec cS \<noteq> [] \<and> HasSuffix p (Join [TrimSuffix p relPath, ''openapi-spec''])) \<longrightarrow>
      hS p relPath = Inr \<lparr>status = 302, header = [(''Location'', TrimSuffix p relPath)], body = []\<rparr>) \<and>
   (SwaggerUIDocumentsHandler env customW cW = Inr hW \<and> relPath \<noteq> [] \<and>
    \<not> (SwaggerUIConfig.Spec cW \<noteq> [] \<and> HasSuffix p (Join [TrimSuffix p relPath, ''openapi-spec''])) \<longrightarrow>
      hW p relPath = Inr \<lparr>status = 302, header = [(''Location'', TrimSuffix p relPath)], body = []\<rparr>) \<and>
   (RedocDocumentsHandler env customR cR = Inr hR \<and> relPath \<noteq> [] \<and>
    \<not> (RedocConfig.Spec cR \<noteq> [] \<and> HasSuffix p (Join [TrimSuffix p relPath, ''openapi-spec''])) \<longrightarrow>
      hR p relPath = Inr \<lparr>status = 302, header = [(''Location'', TrimSuffix p relPath)], body = []\<rparr>)"
proof (intro conjI impI)
  assume a: "ScalarDocumentsHandler env customS cS = Inr hS \<and> relPath \<noteq> [] \<and>
    \<not> (ScalarConfig.Spec cS \<noteq> [] \<and> HasSuffix p (Join [TrimSuffix p relPath, ''openapi-spec'']))"
  then obtain t where "hS = scalar_handler env (scalar_defaults cS) (ScalarConfig.Spec cS = []) t"
    using ScalarDocumentsHandler_built(2) by blast
  with a show "hS p relPath
      = Inr \<lparr>status = 302, header = [(''Location'', TrimSuffix p relPath)], body = []\<rparr>"
    by (auto simp: scalar_handler_cases scalar_defaults_spec found_response_def)
next
  assume a: "SwaggerUIDocumentsHandler env customW cW = Inr hW \<and> relPath \<noteq> [] \<and>
    \<not> (SwaggerUIConfig.Spec cW \<noteq> [] \<and> HasSuffix p (Join [TrimSuffix p relPath, ''openapi-spec'']))"
  then obtain t where "hW = swaggerUI_handler env (swaggerUI_defaults cW) (SwaggerUIConfig.Spec cW = []) t"
    using SwaggerUIDocumentsHandler_built(2) by blast
  with a show "hW p relPath
      = Inr \<lparr>status = 302, header = [(''Location'', TrimSuffix p relPath)], body = []\<rparr>"
    by (auto simp: swaggerUI_handler_cases swaggerUI_defaults_spec found_response_def)
next
  assume a: "RedocDocumentsHandler env customR cR = Inr hR \<and> relPath \<noteq> [] \<and>
    \<not> (RedocConfig.Spec cR \<noteq> [] \<and> HasSuffix p (Join [TrimSuffix p relPath, ''openapi-spec'']))"
  then obtain t where "hR = redoc_handler (redoc_defaults cR) (RedocConfig.Spec cR = []) t"
    using RedocDocumentsHandler_built(2) by blast
  with a show "hR p relPath
      = Inr \<lparr>status = 302, header = [(''Location'', TrimSuffix p relPath)], body = []\<rparr>"
    by (auto simp: redoc_handler_cases redoc_defaults_spec found_response_def)
qed

theorem subpath_redirects_to_basePath_witness:
  "\<not> isl (ScalarDocumentsHandler plain_env no_custom inline_ScalarConfig) \<and>
   \<not> isl (SwaggerUIDocumentsHandler plain_env no_custom inline_SwaggerUIConfig) \<and>
   \<not> isl (RedocDocumentsHandler plain_env no_custom inline_RedocConfig) \<and>
   ''/guide'' \<noteq> [] \<and>
   \<not> HasSuffix ''/docs/guide'' (Join [TrimSuffix ''/docs/guide'' ''/guide'', ''openapi-spec'']) \<and>
   projr (ScalarDocumentsHandler plain_env no_custom inline_ScalarConfig) ''/docs/guide'' ''/guide''
     = Inr \<lparr>status = 302, header = [(''Location'', ''/docs'')], body = []\<rparr> \<and>
   projr (SwaggerUIDocumentsHandler plain_env no_custom inline_SwaggerUIConfig) ''/docs/guide'' ''/guide''
     = Inr \<lparr>status = 302, header = [(''Location'', ''/docs'')], body = []\<rparr> \<and>
   projr (RedocDocumentsHandler plain_env no_custom inline_RedocConfig) ''/docs/guide'' ''/guide''
     = Inr \<lparr>status = 302, header = [(''Location'', ''/docs'')], body = []\<rparr>"
proof -
  have b: "ScalarDocumentsHandler plain_env no_custom inline_ScalarConfig
             = Inr (projr (ScalarDocumentsHandler plain_env no_custom inline_ScalarConfig))"
      "SwaggerUIDocumentsHandler plain_env no_custom inline_SwaggerUIConfig
             = Inr (projr (SwaggerUIDocumentsHandler plain_env no_custom inline_SwaggerUIConfig))"
      "RedocDocumentsHandler plain_env no_custom inline_RedocConfig
             = Inr (projr (RedocDocumentsHandler plain_env no_custom inline_RedocConfig))"
    by (simp_all add: inline_Scalar_built inline_SwaggerUI_built inline_Redoc_built)
  have i: "\<not> isl (ScalarDocumentsHandler plain_env no_custom inline_ScalarConfig)"
      "\<not> isl (SwaggerUIDocumentsHandler plain_env no_custom inline_SwaggerUIConfig)"
      "\<not> isl (RedocDocumentsHandler plain_env no_custom inline_RedocConfig)"
    by (simp_all add: inline_Scalar_built inline_SwaggerUI_built inline_Redoc_built)
  have s: "\<not> HasSuffix ''/docs/guide'' (Join [TrimSuffix ''/docs/guide'' ''/guide'', ''openapi-spec''])"
    by (simp add: docs_paths docs_joins docs_suffixes)
  have n: "''/guide'' \<noteq> []"
    by simp
  note c = subpath_redirects_to_basePath
      [where env = plain_env and customS = no_custom and customW = no_custom and customR = no_custom
         and cS = inline_ScalarConfig and cW = inline_SwaggerUIConfig and cR = inline_RedocConfig
         and p = "''/docs/guide''" and relPath = "''/guide''"
         and hS = "projr (ScalarDocumentsHandler plain_env no_custom inline_ScalarConfig)"
         and hW = "projr (SwaggerUIDocumentsHandler plain_env no_custom inline_SwaggerUIConfig)"
         and hR = "projr (RedocDocumentsHandler plain_env no_custom inline_RedocConfig)"]
  from c [THEN conjunct1] b(1) s n
  have rS: "projr (ScalarDocumentsHandler plain_env no_custom inline_ScalarConfig)
       ''/docs/guide'' ''/guide''
     = Inr \<lparr>status = 302, header = [(''Location'', TrimSuffix ''/docs/guide'' ''/guide'')], body = []\<rparr>"
    by blast
  from c [THEN conjunct2, THEN conjunct1] b(2) s n
  have rW: "projr (SwaggerUIDocumentsHandler plain_env no_custom inline_SwaggerUIConfig)
       ''/docs/guide'' ''/guide''
     = Inr \<lparr>status = 302, header = [(''Location'', TrimSuffix ''/docs/guide'' ''/guide'')], body = []\<rparr>"
    by blast
  from c [THEN conjunct2, THEN conjunct2] b(3) s n
  have rR: "projr (RedocDocumentsHandler plain_env no_custom inline_RedocConfig)
       ''/docs/guide'' ''/guide''
     = Inr \<lparr>status = 302, header = [(''Location'', TrimSuffix ''/docs/guide'' ''/guide'')], body = []\<rparr>"
    by blast
  from i s n rR rW rS show ?thesis
    unfolding docs_paths by blast
qed



section \<open>Determinism\<close>



section \<open>The spec reference of the page\<close>



section \<open>Default-filling\<close>




section \<open>What the built-in templates write\<close>





end
